theory Spec2Isabelle
  imports Main
begin

section \<open>Dates\<close>

text \<open>
  A JavaScript \<open>Date\<close> is modelled by its local time value: the number of milliseconds
  since local midnight of 1970-01-01, an \<open>int\<close>. The source reads and writes dates only
  through local-time accessors (\<open>getFullYear\<close>, \<open>getDate\<close>, \<open>setDate\<close>, date-fns
  \<open>format\<close> and \<open>isWeekend\<close>) and compares them with \<open>\<le>\<close> and \<open>>\<close>, which on a zone
  with a fixed offset (South Africa has no daylight saving) is the order of the local time
  values. Invalid dates are outside the type.
\<close>

type_synonym Date = int

definition msPerDay :: int where
  "msPerDay = 86400000"

definition Day :: "Date \<Rightarrow> int" where
  "Day t = t div msPerDay"

definition TimeWithinDay :: "Date \<Rightarrow> int" where
  "TimeWithinDay t = t mod msPerDay"

text \<open>
  The proleptic Gregorian calendar on day numbers (day 0 is 1970-01-01). A day number is
  split into whole 400-year eras counted from 0000-03-01 and the day of the era; the day of
  the era into centuries of 36524 days (the fourth one day longer), the day of the century
  into four-year cycles of 1461 days (the twenty-fifth one day shorter), the day of the
  cycle into years of 365 days (the fourth one day longer), which leaves the day of the
  year counted from 1 March; months are counted from March in the pattern of 31, 30, 31,
  30 and 31 days.
\<close>

definition civil_from_days :: "int \<Rightarrow> int \<times> int \<times> int" where
  "civil_from_days n =
     (let z = n + 719468;
          era = z div 146097;
          doe = z mod 146097;
          cent = min (doe div 36524) 3;
          doc = doe - cent * 36524;
          quad = min (doc div 1461) 24;
          doq = doc - quad * 1461;
          yr = min (doq div 365) 3;
          doy = doq - yr * 365;
          mp = (5 * doy + 2) div 153;
          d = doy - (153 * mp + 2) div 5 + 1;
          m = (if mp < 10 then mp + 3 else mp - 9);
          y = cent * 100 + quad * 4 + yr + era * 400 + (if m \<le> 2 then 1 else 0)
      in (y, m, d))"

text \<open>The day number of a year, a month (1 to 12) and a day of the month.\<close>

definition days_from_civil :: "int \<Rightarrow> int \<Rightarrow> int \<Rightarrow> int" where
  "days_from_civil y m d =
     (let y' = y - (if m \<le> 2 then 1 else 0);
          era = y' div 400;
          yoe = y' mod 400;
          mp = (if m > 2 then m - 3 else m + 9);
          doy = (153 * mp + 2) div 5 + d - 1;
          doe = yoe * 365 + yoe div 4 - yoe div 100 + doy
      in era * 146097 + doe - 719468)"

definition getFullYear :: "Date \<Rightarrow> int" where
  "getFullYear t = fst (civil_from_days (Day t))"

text \<open>\<open>getMonth\<close> is zero-based, as in JavaScript.\<close>

definition getMonth :: "Date \<Rightarrow> int" where
  "getMonth t = fst (snd (civil_from_days (Day t))) - 1"

definition getDate :: "Date \<Rightarrow> int" where
  "getDate t = snd (snd (civil_from_days (Day t)))"

text \<open>\<open>getDay\<close>: 0 is Sunday, 6 is Saturday; 1970-01-01 was a Thursday.\<close>

definition getDay :: "Date \<Rightarrow> int" where
  "getDay t = (Day t + 4) mod 7"

text \<open>
  \<open>setDate\<close> sets the day of the month and keeps the month and the time of day; a value
  outside the month carries into the neighbouring months (ECMAScript \<open>MakeDay\<close>: the day
  number of the first of the month, plus the value, minus one).
\<close>

definition setDate :: "Date \<Rightarrow> int \<Rightarrow> Date" where
  "setDate t dt = (Day t - (getDate t - 1) + (dt - 1)) * msPerDay + TimeWithinDay t"

text \<open>
  \<open>new Date(year, monthIndex, day)\<close>: local midnight of that day. A year from 0 to 99 means
  1900 + year, and a month index outside 0 to 11 carries into the year.
\<close>

definition newDateYMD :: "int \<Rightarrow> int \<Rightarrow> int \<Rightarrow> Date" where
  "newDateYMD year monthIndex day =
     (let yr = (if 0 \<le> year \<and> year \<le> 99 then 1900 + year else year);
          ym = yr + monthIndex div 12;
          mn = monthIndex mod 12
      in (days_from_civil ym (mn + 1) 1 + day - 1) * msPerDay)"

text \<open>date-fns \<open>isWeekend\<close>.\<close>

definition isWeekend :: "Date \<Rightarrow> bool" where
  "isWeekend t = (getDay t = 0 \<or> getDay t = 6)"

text \<open>date-fns \<open>format(date, 'MM-dd')\<close>: month and day of month, two digits each.\<close>

definition digit_char :: "nat \<Rightarrow> char" where
  "digit_char n = ''0123456789'' ! n"

definition pad2 :: "int \<Rightarrow> string" where
  "pad2 n = [digit_char (nat n div 10), digit_char (nat n mod 10)]"

definition format_MM_dd :: "Date \<Rightarrow> string" where
  "format_MM_dd t = pad2 (getMonth t + 1) @ ''-'' @ pad2 (getDate t)"

section \<open>South African public holidays and working days\<close>

definition FIXED_HOLIDAYS :: "string list" where
  "FIXED_HOLIDAYS =
     [''01-01'', ''03-21'', ''04-27'', ''05-01'', ''06-16'',
      ''08-09'', ''09-24'', ''12-16'', ''12-25'', ''12-26'']"

text \<open>
  JavaScript's \<open>%\<close> is the remainder of truncated division (the sign of the dividend);
  \<open>Math.floor(a / b)\<close> on integers with a positive divisor is \<open>div\<close>.
\<close>

definition js_rem :: "int \<Rightarrow> int \<Rightarrow> int" where
  "js_rem a b = sgn a * (\<bar>a\<bar> mod \<bar>b\<bar>)"

definition getEasterDate :: "int \<Rightarrow> Date" where
  "getEasterDate year =
     (let a = js_rem year 19;
          b = year div 100;
          c = js_rem year 100;
          d = b div 4;
          e = js_rem b 4;
          f = (b + 8) div 25;
          g = (b - f + 1) div 3;
          h = js_rem (19 * a + b - d - g + 15) 30;
          i = c div 4;
          k = js_rem c 4;
          l = js_rem (32 + 2 * e + 2 * i - h - k) 7;
          m = (a + 11 * h + 22 * l) div 451;
          month = (h + l - 7 * m + 114) div 31;
          day = js_rem (h + l - 7 * m + 114) 31 + 1
      in newDateYMD year (month - 1) day)"

definition getEasterBasedHolidays :: "int \<Rightarrow> string list" where
  "getEasterBasedHolidays year =
     (let easter = getEasterDate year;
          goodFriday = setDate easter (getDate easter - 2);
          familyDay = setDate easter (getDate easter + 1)
      in [format_MM_dd goodFriday, format_MM_dd familyDay])"

definition isPublicHoliday :: "Date \<Rightarrow> bool" where
  "isPublicHoliday date =
     (let year = getFullYear date;
          monthDay = format_MM_dd date
      in if monthDay \<in> set FIXED_HOLIDAYS then True
         else monthDay \<in> set (getEasterBasedHolidays year))"

definition isWorkingDay :: "Date \<Rightarrow> bool" where
  "isWorkingDay date = (\<not> isWeekend date \<and> \<not> isPublicHoliday date)"

text \<open>
  The loop of \<open>calculateWorkingDays\<close>: \<open>current\<close> starts as a copy of \<open>startDate\<close> and moves
  one day at a time while it is not after \<open>endDate\<close>.
\<close>

function calculateWorkingDays_loop :: "Date \<Rightarrow> Date \<Rightarrow> nat \<Rightarrow> nat" where
  "calculateWorkingDays_loop current endDate workingDays =
     (if current \<le> endDate
      then calculateWorkingDays_loop (setDate current (getDate current + 1)) endDate
             (if isWorkingDay current then workingDays + 1 else workingDays)
      else workingDays)"
  by pat_completeness auto
termination
  by (relation "measure (\<lambda>(current, endDate, workingDays). nat (endDate - current + 1))")
     (auto simp: setDate_def Day_def TimeWithinDay_def msPerDay_def algebra_simps)

declare calculateWorkingDays_loop.simps [simp del]

definition calculateWorkingDays :: "Date \<Rightarrow> Date \<Rightarrow> nat" where
  "calculateWorkingDays startDate endDate = calculateWorkingDays_loop startDate endDate 0"

text \<open>The offsets from \<open>startDate\<close>, in days, of the working days the loop counts.\<close>

definition walked :: "Date \<Rightarrow> Date \<Rightarrow> nat set" where
  "walked c e = {k. c + int k * msPerDay \<le> e \<and> isWorkingDay (c + int k * msPerDay)}"

section \<open>Strings\<close>

text \<open>
  \<open>String.prototype.trim\<close> removes white space at both ends (of the characters of one
  byte: tab, line feed, vertical tab, form feed, carriage return, space and no-break
  space), \<open>includes\<close> (here \<open>string_includes\<close>) looks for a substring, and a number in a
  template literal is written in decimal.
\<close>

definition is_ws :: "char \<Rightarrow> bool" where
  "is_ws c = (c \<in> {CHR 0x09, CHR 0x0A, CHR 0x0B, CHR 0x0C, CHR 0x0D, CHR 0x20, CHR 0xA0})"

definition trim :: "string \<Rightarrow> string" where
  "trim s = rev (dropWhile is_ws (rev (dropWhile is_ws s)))"

fun starts_with :: "string \<Rightarrow> string \<Rightarrow> bool" where
  "starts_with s [] = True"
| "starts_with [] (p # ps) = False"
| "starts_with (c # cs) (p # ps) = (c = p \<and> starts_with cs ps)"

fun string_includes :: "string \<Rightarrow> string \<Rightarrow> bool" where
  "string_includes [] sub = (sub = [])"
| "string_includes (c # cs) sub = (starts_with (c # cs) sub \<or> string_includes cs sub)"

fun showNat :: "nat \<Rightarrow> string" where
  "showNat n = (if n < 10 then [digit_char n] else showNat (n div 10) @ [digit_char (n mod 10)])"

declare showNat.simps [simp del]

section \<open>Status fetch pipeline\<close>

record SearchParams =
  fref :: "string option"
  frid :: "string option"
  fserial :: "string option"
  fsref :: "string option"
  fid :: "string option"
  fiserial :: "string option"

record FirearmStatus =
  type :: string
  number :: string
  calibre :: string
  status_make :: string
  status :: string
  description :: string
  nextStep :: string
  workingDaysPending :: nat
  isOverdue :: bool

record StatusFetchResult =
  success :: bool
  result_status :: "FirearmStatus option"
  error :: "string option"

definition CORS_PROXIES :: "string list" where
  "CORS_PROXIES =
     [''https://api.allorigins.win/get?url='',
      ''https://corsproxy.io/?'',
      ''https://cors-anywhere.herokuapp.com/'',
      ''https://api.codetabs.com/v1/proxy?quest='']"

text \<open>
  The network. A value that is thrown is an \<open>Error\<close> with its message, or something that is
  not an \<open>Error\<close>. \<open>fetch\<close> rejects (a network failure, or the abort of
  \<open>AbortSignal.timeout(15000)\<close>) or resolves to a response; of a response the source reads
  \<open>ok\<close>, \<open>status\<close>, \<open>statusText\<close>, and either \<open>(await response.json()).contents\<close>
  (nothing when the property is missing or null) or \<open>await response.text()\<close>, each of which
  may reject. The target address is kept as its list of query parameters; what a proxy
  answers for a target is a parameter of the model.
\<close>

datatype thrown = Error string | NonError

record Response =
  ok :: bool
  http_status :: nat
  statusText :: string
  json_contents :: "thrown + string option"
  text_body :: "thrown + string"

datatype fetch_result = Rejected thrown | Resolved Response

type_synonym url = "(string \<times> string) list"

type_synonym network = "string \<Rightarrow> url \<Rightarrow> fetch_result"

text \<open>
  The parsed page: the rows (\<open>tr\<close>) of the first \<open>table.table\<close>, each row the \<open>textContent\<close>
  of its \<open>td\<close> cells, when there is such a table, and whether the page has a \<open>form\<close>.
\<close>

record Document =
  table :: "string option list list option"
  form :: bool

text \<open>
  What a call reads from outside: the platform, the clock (read once: a call takes no
  time), \<open>new Date(string)\<close>, the network, the DOM parser, and whether the notification
  plugin rejects a call or \<open>localStorage.setItem\<close> throws.
\<close>

record Env =
  isNativePlatform :: bool
  now :: Date
  newDate :: "string \<Rightarrow> Date"
  fetch :: network
  parseFromString :: "string \<Rightarrow> Document"
  cancelRejects :: bool
  scheduleRejects :: bool
  setItemThrows :: bool

definition responseProcessor :: "string \<Rightarrow> Response \<Rightarrow> thrown + string option" where
  "responseProcessor proxy response =
     (if string_includes proxy ''allorigins.win'' then json_contents response
      else (case text_body response of Inl e \<Rightarrow> Inl e | Inr t \<Rightarrow> Inr (Some t)))"

text \<open>The body of the \<open>try\<close> block for one proxy: the page, or what was thrown.\<close>

definition tryProxy :: "network \<Rightarrow> string \<Rightarrow> url \<Rightarrow> thrown + string" where
  "tryProxy net proxy sapsUrl =
     (case net proxy sapsUrl of
        Rejected e \<Rightarrow> Inl e
      | Resolved response \<Rightarrow>
          if \<not> ok response
          then Inl (Error (''HTTP '' @ showNat (http_status response) @ '': '' @ statusText response))
          else (case responseProcessor proxy response of
                  Inl e \<Rightarrow> Inl e
                | Inr None \<Rightarrow> Inl (Error ''Empty response received'')
                | Inr (Some html) \<Rightarrow>
                    if html = [] \<or> length (trim html) = 0
                    then Inl (Error ''Empty response received'')
                    else Inr html))"

text \<open>
  The loop over the proxies, with \<open>lastError\<close> (the message of the last error, or nothing
  for \<open>null\<close>); what is caught and is not an \<open>Error\<close> becomes
  \<open>new Error('Unknown proxy error')\<close>. The result is the page, or the message of the
  \<open>Error\<close> thrown at the end.
\<close>

definition errorMessage :: "thrown \<Rightarrow> string" where
  "errorMessage e = (case e of Error m \<Rightarrow> m | NonError \<Rightarrow> ''Unknown proxy error'')"

fun fetchWithProxy_loop :: "network \<Rightarrow> url \<Rightarrow> string list \<Rightarrow> string option \<Rightarrow> string + string" where
  "fetchWithProxy_loop net sapsUrl [] lastError =
     Inl (''All CORS proxies failed. Last error: '' @
          (case lastError of None \<Rightarrow> ''undefined'' | Some m \<Rightarrow> m))"
| "fetchWithProxy_loop net sapsUrl (proxy # rest) lastError =
     (case tryProxy net proxy sapsUrl of
        Inr html \<Rightarrow> Inr html
      | Inl e \<Rightarrow> fetchWithProxy_loop net sapsUrl rest (Some (errorMessage e)))"

definition fetchWithProxy_over :: "string list \<Rightarrow> network \<Rightarrow> url \<Rightarrow> string + string" where
  "fetchWithProxy_over proxies net sapsUrl = fetchWithProxy_loop net sapsUrl proxies None"

definition fetchWithProxy :: "network \<Rightarrow> url \<Rightarrow> string + string" where
  "fetchWithProxy net sapsUrl = fetchWithProxy_over CORS_PROXIES net sapsUrl"

text \<open>The query: only the parameters that are not empty after trimming.\<close>

definition searchParam :: "string \<Rightarrow> string option \<Rightarrow> url" where
  "searchParam key v =
     (case v of None \<Rightarrow> [] | Some s \<Rightarrow> if trim s = [] then [] else [(key, trim s)])"

definition buildQuery :: "SearchParams \<Rightarrow> url" where
  "buildQuery params =
     searchParam ''fref'' (fref params) @ searchParam ''frid'' (frid params) @
     searchParam ''fserial'' (fserial params) @ searchParam ''fsref'' (fsref params) @
     searchParam ''fid'' (fid params) @ searchParam ''fiserial'' (fiserial params)"

definition failure :: "string \<Rightarrow> StatusFetchResult" where
  "failure msg = \<lparr>success = False, result_status = None, error = Some msg\<rparr>"

text \<open>\<open>cell.textContent?.trim() || ''\<close> and \<open>value || placeholder\<close>.\<close>

definition cellValue :: "string option \<Rightarrow> string" where
  "cellValue textContent = (case textContent of None \<Rightarrow> [] | Some s \<Rightarrow> trim s)"

definition orElse :: "string \<Rightarrow> string \<Rightarrow> string" where
  "orElse v placeholder = (if v = [] then placeholder else v)"

text \<open>The parse step of \<open>fetchFirearmStatus\<close>: from the page to the result.\<close>

definition parseStatus :: "Env \<Rightarrow> string \<Rightarrow> string \<Rightarrow> StatusFetchResult" where
  "parseStatus env html dateApplied =
     (let doc = parseFromString env html in
      case table doc of
        None \<Rightarrow>
          if form doc
          then failure ''No results found. Please verify your reference numbers are correct.''
          else failure ''No results table found on SAPS website. The page format may have changed.''
      | Some rows \<Rightarrow>
          if length rows \<le> 1
          then failure ''No data rows found in results table. No matching applications found.''
          else
            let cellValues = map cellValue (rows ! 1) in
            if length cellValues < 10
            then failure (''Insufficient data columns found ('' @ showNat (length cellValues) @
                          ''/10). Make sure your information is correct.'')
            else
              let applicationDate = newDate env dateApplied;
                  today = now env;
                  workingDaysPending = calculateWorkingDays applicationDate today;
                  isOverdue = workingDaysPending > 90
              in \<lparr>success = True,
                  result_status = Some
                    \<lparr>type = orElse (cellValues ! 0) ''Unknown'',
                     number = orElse (cellValues ! 1) ''Unknown'',
                     calibre = orElse (cellValues ! 3) ''Unknown'',
                     status_make = orElse (cellValues ! 4) ''Unknown'',
                     status = orElse (cellValues ! 7) ''Unknown'',
                     description = orElse (cellValues ! 8) ''No description available'',
                     nextStep = orElse (cellValues ! 9) ''No next step information'',
                     workingDaysPending = workingDaysPending,
                     isOverdue = isOverdue\<rparr>,
                  error = None\<rparr>)"

text \<open>The \<open>catch\<close> block of \<open>fetchFirearmStatus\<close>, on the message of the \<open>Error\<close> caught.\<close>

definition fetchError :: "string \<Rightarrow> StatusFetchResult" where
  "fetchError message =
     (if string_includes message ''timeout''
      then failure ''Request timeout: SAPS website is taking too long to respond. Please try again.''
      else if string_includes message ''Network''
      then failure ''Network error: Please check your internet connection and try again.''
      else if string_includes message ''proxy''
      then failure ''Connection error: Unable to access SAPS website. Please try again later.''
      else failure message)"

definition fetchFirearmStatus_over ::
    "string list \<Rightarrow> Env \<Rightarrow> SearchParams \<Rightarrow> string \<Rightarrow> StatusFetchResult" where
  "fetchFirearmStatus_over proxies env params dateApplied =
     (case fetchWithProxy_over proxies (fetch env) (buildQuery params) of
        Inl message \<Rightarrow> fetchError message
      | Inr html \<Rightarrow> parseStatus env html dateApplied)"

definition fetchFirearmStatus :: "Env \<Rightarrow> SearchParams \<Rightarrow> string \<Rightarrow> StatusFetchResult" where
  "fetchFirearmStatus env params dateApplied =
     fetchFirearmStatus_over CORS_PROXIES env params dateApplied"

section \<open>Notification service\<close>

datatype SearchMethod = REF_ID | SERIAL_REF | ID_SERIAL

text \<open>
  The records of \<open>types/firearm\<close>; \<open>id\<close>, \<open>title\<close>, \<open>section\<close>, \<open>make\<close> and \<open>notes\<close> carry a prefix, since
  Isabelle reserves those names.
\<close>

record FirearmRecord =
  firearm_id :: string
  firearm_title :: string
  issueDate :: string
  licence_section :: string
  expiryDate :: string
  firearm_make :: "string option"
  serialNumber :: "string option"
  firearm_notes :: "string option"
  createdAt :: string

record FirearmApplication =
  application_id :: string
  applicationRefNumber :: string
  idNumber :: string
  dateApplied :: string
  application_createdAt :: string
  searchMethod :: "SearchMethod option"
  application_serialNumber :: "string option"
  gunReference :: "string option"
  application_title :: "string option"

record NotificationSchedule =
  firearmId :: string
  firearmTitle :: string
  schedule_expiryDate :: string
  notificationIds :: "nat list"

record ApplicationNotificationSchedule =
  applicationId :: string
  applicationRef :: string
  notificationId :: nat

text \<open>
  A notification as the source hands it to the plugin. \<open>extra\<close> is
  \<open>{firearmId, daysToExpiry}\<close> for a firearm reminder and
  \<open>{applicationId, type: 'application_pending', workingDays}\<close> for an application reminder.
\<close>

datatype NotificationExtra = FirearmExtra string nat | ApplicationExtra string nat

record LocalNotificationSchema =
  notification_id :: nat
  notification_title :: string
  body :: string
  schedule_at :: Date
  actionTypeId :: string
  extra :: NotificationExtra

text \<open>
  The state the service works on: its counter (in memory), the three local storage items
  it and \<open>utils/storage\<close> use (absent, or the list last saved), the notifications
  registered with the plugin, and the messages of \<open>console.error\<close>.
\<close>

record State =
  notificationCounter :: nat
  firearm_notification_schedule :: "NotificationSchedule list option"
  application_notification_schedule :: "ApplicationNotificationSchedule list option"
  firearm_records :: "FirearmRecord list option"
  pending :: "LocalNotificationSchema list"
  errors :: "string list"

text \<open>
  The plugin (Capacitor \<open>LocalNotifications\<close>) keeps one notification per identifier:
  \<open>schedule\<close> registers the notifications given, each replacing one registered under the
  same identifier, and \<open>cancel\<close> removes those with the identifiers given.
\<close>

definition LocalNotifications_schedule ::
    "LocalNotificationSchema list \<Rightarrow> LocalNotificationSchema list \<Rightarrow> LocalNotificationSchema list" where
  "LocalNotifications_schedule notifications registered =
     filter (\<lambda>n. notification_id n \<notin> set (map notification_id notifications)) registered
       @ notifications"

definition LocalNotifications_cancel ::
    "nat list \<Rightarrow> LocalNotificationSchema list \<Rightarrow> LocalNotificationSchema list" where
  "LocalNotifications_cancel ids registered =
     filter (\<lambda>n. notification_id n \<notin> set ids) registered"

definition logError :: "string \<Rightarrow> State \<Rightarrow> State" where
  "logError msg st = st\<lparr>errors := errors st @ [msg]\<rparr>"

definition getNextNotificationId :: "State \<Rightarrow> nat \<times> State" where
  "getNextNotificationId st =
     (notificationCounter st, st\<lparr>notificationCounter := notificationCounter st + 1\<rparr>)"

definition saveSchedule :: "Env \<Rightarrow> NotificationSchedule list \<Rightarrow> State \<Rightarrow> State" where
  "saveSchedule env schedule st =
     (if setItemThrows env then logError ''Failed to save notification schedule:'' st
      else st\<lparr>firearm_notification_schedule := Some schedule\<rparr>)"

definition loadSchedule :: "State \<Rightarrow> NotificationSchedule list" where
  "loadSchedule st = (case firearm_notification_schedule st of None \<Rightarrow> [] | Some stored \<Rightarrow> stored)"

definition cancelFirearmNotifications :: "Env \<Rightarrow> string \<Rightarrow> State \<Rightarrow> State" where
  "cancelFirearmNotifications env fId st =
     (if \<not> isNativePlatform env then st
      else
        let schedule = loadSchedule st in
        case find (\<lambda>s. firearmId s = fId) schedule of
          None \<Rightarrow> st
        | Some firearmSchedule \<Rightarrow>
            if length (notificationIds firearmSchedule) > 0
            then
              if cancelRejects env then logError ''Failed to cancel notifications:'' st
              else
                let st1 = st\<lparr>pending :=
                            LocalNotifications_cancel (notificationIds firearmSchedule) (pending st)\<rparr>;
                    updatedSchedule = filter (\<lambda>s. firearmId s \<noteq> fId) schedule
                in saveSchedule env updatedSchedule st1
            else st)"

definition intervals :: "nat list" where
  "intervals = [365, 180, 90, 60, 30, 14, 7, 3, 1]"

definition firearmTitleText :: "nat \<Rightarrow> string" where
  "firearmTitleText days =
     (if days \<ge> 365 then ''Firearm License Expiry - 1 Year Notice''
      else if days \<ge> 90 then ''Firearm License Expiry - '' @ showNat days @ '' Days''
      else if days \<ge> 30 then ''Firearm License Expiry - '' @ showNat days @ '' Days''
      else if days \<ge> 7 then ''URGENT: Firearm License Expiry - '' @ showNat days @ '' Days''
      else ''CRITICAL: Firearm License Expiry - '' @ showNat days @ '' Day'' @
           (if days \<noteq> 1 then ''s'' else []))"

definition firearmBodyText :: "FirearmRecord \<Rightarrow> nat \<Rightarrow> string" where
  "firearmBodyText firearm days =
     (if days \<ge> 365
      then firearm_title firearm @ '' expires in 1 year ('' @ expiryDate firearm @
           ''). Consider starting renewal process.''
      else if days \<ge> 90
      then firearm_title firearm @ '' expires in '' @ showNat days @ '' days ('' @
           expiryDate firearm @ ''). Time to start renewal.''
      else if days \<ge> 30
      then firearm_title firearm @ '' expires in '' @ showNat days @ '' days ('' @
           expiryDate firearm @ ''). Renewal required!''
      else if days \<ge> 7
      then firearm_title firearm @ '' expires in '' @ showNat days @ '' days ('' @
           expiryDate firearm @ ''). Renewal URGENT!''
      else firearm_title firearm @ '' expires '' @
           (if days = 1 then ''tomorrow'' else ''in '' @ showNat days @ '' days'') @
           '' ('' @ expiryDate firearm @ ''). IMMEDIATE ACTION REQUIRED!'')"

definition firearmNotification ::
    "FirearmRecord \<Rightarrow> Date \<Rightarrow> nat \<Rightarrow> nat \<Rightarrow> LocalNotificationSchema" where
  "firearmNotification firearm notificationDate days ident =
     \<lparr>notification_id = ident,
      notification_title = firearmTitleText days,
      body = firearmBodyText firearm days,
      schedule_at = notificationDate,
      actionTypeId = [],
      extra = FirearmExtra (firearm_id firearm) days\<rparr>"

text \<open>
  One round of the loop over \<open>intervals\<close>, on \<open>notifications\<close>, \<open>notificationIds\<close> and the
  state (for the counter).
\<close>

definition scheduleFirearmStep ::
    "FirearmRecord \<Rightarrow> Date \<Rightarrow> Date \<Rightarrow>
     LocalNotificationSchema list \<times> nat list \<times> State \<Rightarrow> nat \<Rightarrow>
     LocalNotificationSchema list \<times> nat list \<times> State" where
  "scheduleFirearmStep firearm expiry today acc days =
     (case acc of (notifications, ids, st) \<Rightarrow>
        let notificationDate = setDate expiry (getDate expiry - int days) in
        if notificationDate > today
        then (case getNextNotificationId st of (ident, st') \<Rightarrow>
                (notifications @ [firearmNotification firearm notificationDate days ident],
                 ids @ [ident], st'))
        else (notifications, ids, st))"

text \<open>\<open>Array.prototype.findIndex\<close>: the first index, or -1.\<close>

fun findIndex :: "('a \<Rightarrow> bool) \<Rightarrow> 'a list \<Rightarrow> int" where
  "findIndex P [] = -1"
| "findIndex P (x # xs) =
     (if P x then 0 else (let i = findIndex P xs in if i < 0 then -1 else i + 1))"

definition scheduleFirearmNotifications :: "Env \<Rightarrow> FirearmRecord \<Rightarrow> State \<Rightarrow> State" where
  "scheduleFirearmNotifications env firearm st =
     (if \<not> isNativePlatform env then st
      else
        let st1 = cancelFirearmNotifications env (firearm_id firearm) st;
            expiry = newDate env (expiryDate firearm);
            today = now env
        in case foldl (scheduleFirearmStep firearm expiry today) ([], [], st1) intervals of
             (notifications, ids, st2) \<Rightarrow>
               if length notifications > 0
               then
                 if scheduleRejects env then logError ''Failed to schedule notifications:'' st2
                 else
                   let st3 = st2\<lparr>pending := LocalNotifications_schedule notifications (pending st2)\<rparr>;
                       schedule = loadSchedule st3;
                       existingIndex = findIndex (\<lambda>s. firearmId s = firearm_id firearm) schedule;
                       newSchedule =
                         \<lparr>firearmId = firearm_id firearm,
                          firearmTitle = firearm_title firearm,
                          schedule_expiryDate = expiryDate firearm,
                          notificationIds = ids\<rparr>
                   in if existingIndex \<ge> 0
                      then saveSchedule env (schedule[nat existingIndex := newSchedule]) st3
                      else saveSchedule env (schedule @ [newSchedule]) st3
               else st2)"

text \<open>\<open>utils/storage\<close>: \<open>deleteFirearm\<close> has no \<open>try\<close>; nothing is returned when \<open>setItem\<close>
  throws.\<close>

definition loadFirearms :: "State \<Rightarrow> FirearmRecord list" where
  "loadFirearms st = (case firearm_records st of None \<Rightarrow> [] | Some stored \<Rightarrow> stored)"

definition deleteFirearm :: "Env \<Rightarrow> string \<Rightarrow> State \<Rightarrow> (bool \<times> State) option" where
  "deleteFirearm env fId st =
     (let firearms = loadFirearms st;
          filtered = filter (\<lambda>firearm. firearm_id firearm \<noteq> fId) firearms
      in if length filtered = length firearms then Some (False, st)
         else if setItemThrows env then None
         else Some (True, st\<lparr>firearm_records := Some filtered\<rparr>))"

text \<open>
  \<open>confirmFirearmDelete\<close> of the tracker component, on the stored state: the record is
  deleted, then its notifications are cancelled. An exception of \<open>deleteFirearm\<close> leaves the
  handler before the cancellation.
\<close>

definition confirmFirearmDelete :: "Env \<Rightarrow> string \<Rightarrow> State \<Rightarrow> State" where
  "confirmFirearmDelete env fId st =
     (case deleteFirearm env fId st of
        None \<Rightarrow> st
      | Some (deleted, st') \<Rightarrow> cancelFirearmNotifications env fId st')"

definition saveApplicationSchedule ::
    "Env \<Rightarrow> ApplicationNotificationSchedule list \<Rightarrow> State \<Rightarrow> State" where
  "saveApplicationSchedule env schedule st =
     (if setItemThrows env
      then logError ''Failed to save application notification schedule:'' st
      else st\<lparr>application_notification_schedule := Some schedule\<rparr>)"

definition loadApplicationSchedule :: "State \<Rightarrow> ApplicationNotificationSchedule list" where
  "loadApplicationSchedule st =
     (case application_notification_schedule st of None \<Rightarrow> [] | Some stored \<Rightarrow> stored)"

definition cancelAllApplicationNotifications :: "Env \<Rightarrow> State \<Rightarrow> State" where
  "cancelAllApplicationNotifications env st =
     (if \<not> isNativePlatform env then st
      else
        let schedule = loadApplicationSchedule st;
            allIds = map notificationId schedule
        in if length allIds > 0
           then
             if cancelRejects env then logError ''Failed to cancel application notifications:'' st
             else saveApplicationSchedule env []
                    (st\<lparr>pending := LocalNotifications_cancel allIds (pending st)\<rparr>)
           else saveApplicationSchedule env [] st)"

definition applicationNotification ::
    "FirearmApplication \<Rightarrow> Date \<Rightarrow> nat \<Rightarrow> nat \<Rightarrow> LocalNotificationSchema" where
  "applicationNotification app notificationDate workingDays ident =
     (let daysText = (if workingDays \<ge> 90
                      then showNat workingDays @ '' working days''
                      else ''90+ working days'')
      in \<lparr>notification_id = ident,
          notification_title = ''Application Pending Alert'',
          body = ''Your firearm application '' @ applicationRefNumber app @
                 '' has been pending for '' @ daysText @ ''. Consider following up with SAPS.'',
          schedule_at = notificationDate,
          actionTypeId = [],
          extra = ApplicationExtra (application_id app) workingDays\<rparr>)"

text \<open>One round of the loop over the applications.\<close>

definition scheduleApplicationStep ::
    "Env \<Rightarrow> LocalNotificationSchema list \<times> ApplicationNotificationSchedule list \<times> State \<Rightarrow>
     FirearmApplication \<Rightarrow>
     LocalNotificationSchema list \<times> ApplicationNotificationSchedule list \<times> State" where
  "scheduleApplicationStep env acc app =
     (case acc of (notifications, schedule, st) \<Rightarrow>
        let applicationDate = newDate env (dateApplied app);
            today = now env;
            workingDaysPending = calculateWorkingDays applicationDate today
        in if workingDaysPending \<ge> 88
           then
             let notificationDate =
                   (if workingDaysPending \<ge> 90 then now env + 60000
                    else now env + (92 - int workingDaysPending) * 24 * 60 * 60 * 1000)
             in case getNextNotificationId st of (ident, st') \<Rightarrow>
                  (notifications @ [applicationNotification app notificationDate workingDaysPending ident],
                   schedule @ [\<lparr>applicationId = application_id app,
                                applicationRef = applicationRefNumber app,
                                notificationId = ident\<rparr>],
                   st')
           else (notifications, schedule, st))"

definition scheduleApplicationNotifications ::
    "Env \<Rightarrow> FirearmApplication list \<Rightarrow> State \<Rightarrow> State" where
  "scheduleApplicationNotifications env applications st =
     (if \<not> isNativePlatform env then st
      else
        let st1 = cancelAllApplicationNotifications env st
        in case foldl (scheduleApplicationStep env) ([], [], st1) applications of
             (notifications, schedule, st2) \<Rightarrow>
               if length notifications > 0
               then
                 if scheduleRejects env
                 then logError ''Failed to schedule application notifications:'' st2
                 else saveApplicationSchedule env schedule
                        (st2\<lparr>pending := LocalNotifications_schedule notifications (pending st2)\<rparr>)
               else st2)"

text \<open>Starting the application anew creates the service with its counter at 1000; the
  storage and the plugin keep what they hold.\<close>

definition restart :: "State \<Rightarrow> State" where
  "restart st = st\<lparr>notificationCounter := 1000\<rparr>"

definition initialState :: State where
  "initialState =
     \<lparr>notificationCounter = 1000, firearm_notification_schedule = None,
      application_notification_schedule = None, firearm_records = None,
      pending = [], errors = []\<rparr>"

text \<open>The reminders registered with the plugin for a firearm, and for the applications.\<close>

definition isFirearmReminder :: "string \<Rightarrow> LocalNotificationSchema \<Rightarrow> bool" where
  "isFirearmReminder fId n =
     (case extra n of FirearmExtra f days \<Rightarrow> f = fId | ApplicationExtra a w \<Rightarrow> False)"

definition firearmReminders :: "string \<Rightarrow> State \<Rightarrow> LocalNotificationSchema list" where
  "firearmReminders fId st = filter (isFirearmReminder fId) (pending st)"

definition daysToExpiry :: "LocalNotificationSchema \<Rightarrow> nat" where
  "daysToExpiry n = (case extra n of FirearmExtra f days \<Rightarrow> days | ApplicationExtra a w \<Rightarrow> 0)"

section \<open>Notions used to state the properties\<close>

text \<open>
  The offsets of a list whose reminder instant (the expiry date less the offset, in days)
  is still after today, and the notifications for a list of offsets with identifiers
  counted up from \<open>c\<close>.
\<close>

definition applicable :: "Date \<Rightarrow> Date \<Rightarrow> nat list \<Rightarrow> nat list" where
  "applicable expiry today ds = filter (\<lambda>days. today < expiry - int days * msPerDay) ds"

definition firearmBatch ::
    "FirearmRecord \<Rightarrow> Date \<Rightarrow> nat \<Rightarrow> nat list \<Rightarrow> LocalNotificationSchema list" where
  "firearmBatch firearm expiry c offs =
     map (\<lambda>(days, ident). firearmNotification firearm (expiry - int days * msPerDay) days ident)
       (zip offs [c ..< c + length offs])"

text \<open>
  A firearm's reminders are tracked when each of them that is registered with the plugin
  has its identifier in the schedule entry of the firearm (the first entry found, the one
  \<open>cancelFirearmNotifications\<close> reads).
\<close>

definition tracked :: "string \<Rightarrow> State \<Rightarrow> bool" where
  "tracked fId st =
     list_all
       (\<lambda>n. isFirearmReminder fId n \<longrightarrow>
              (case find (\<lambda>s. firearmId s = fId) (loadSchedule st) of
                 None \<Rightarrow> False
               | Some s \<Rightarrow> notification_id n \<in> set (notificationIds s)))
       (pending st)"

text \<open>
  The working days an application has been pending, the applications of a list that get a
  reminder, and their notifications and schedule entries with identifiers counted up from
  \<open>c\<close>.
\<close>

definition pendingDays :: "Env \<Rightarrow> FirearmApplication \<Rightarrow> nat" where
  "pendingDays env app = calculateWorkingDays (newDate env (dateApplied app)) (now env)"

definition dueApplications :: "Env \<Rightarrow> FirearmApplication list \<Rightarrow> FirearmApplication list" where
  "dueApplications env applications = filter (\<lambda>app. 88 \<le> pendingDays env app) applications"

definition reminderInstant :: "Env \<Rightarrow> nat \<Rightarrow> Date" where
  "reminderInstant env workingDays =
     (if 90 \<le> workingDays then now env + 60000
      else now env + (90 + 2 - int workingDays) * msPerDay)"

definition applicationBatch ::
    "Env \<Rightarrow> nat \<Rightarrow> FirearmApplication list \<Rightarrow> LocalNotificationSchema list" where
  "applicationBatch env c due =
     map (\<lambda>(app, ident).
            applicationNotification app (reminderInstant env (pendingDays env app))
              (pendingDays env app) ident)
       (zip due [c ..< c + length due])"

definition applicationEntries ::
    "nat \<Rightarrow> FirearmApplication list \<Rightarrow> ApplicationNotificationSchedule list" where
  "applicationEntries c due =
     map (\<lambda>(app, ident).
            \<lparr>applicationId = application_id app, applicationRef = applicationRefNumber app,
             notificationId = ident\<rparr>)
       (zip due [c ..< c + length due])"

section \<open>Example inputs\<close>

text \<open>
  A lookup on 17 May 2024 for an application of 2 January 2024: the first proxy times out,
  the second answers 503, the third answers an empty page and the fourth returns the
  page, whose results table has a header row and one data row of ten cells.
\<close>

definition exampleRows :: "string option list list" where
  "exampleRows =
     [[],
      [Some ''Competency'', Some '' 12345 '', Some ''x'', Some ''9mm'', Some ''Glock'',
       Some ''y'', Some ''z'', Some ''Approved'', None, Some '' '']]"

definition examplePage :: Document where
  "examplePage = \<lparr>table = Some exampleRows, form = False\<rparr>"

definition exampleParse :: "string \<Rightarrow> Document" where
  "exampleParse html =
     (if html = ''<form></form>'' then \<lparr>table = None, form = True\<rparr>
      else if html = ''<p>moved</p>'' then \<lparr>table = None, form = False\<rparr>
      else if html = ''<table class=table>short''
      then \<lparr>table = Some [[], [Some ''Competency'', Some ''12345'']], form = False\<rparr>
      else examplePage)"

definition exampleNet :: network where
  "exampleNet proxy target =
     (if proxy = CORS_PROXIES ! 0 then Rejected (Error ''The operation timed out.'')
      else if proxy = CORS_PROXIES ! 1
      then Resolved \<lparr>ok = False, http_status = 503, statusText = ''Service Unavailable'',
                     json_contents = Inl (Error ''Unexpected token''),
                     text_body = Inr ''unavailable''\<rparr>
      else if proxy = CORS_PROXIES ! 2
      then Resolved \<lparr>ok = True, http_status = 200, statusText = ''OK'',
                     json_contents = Inl (Error ''Unexpected token''),
                     text_body = Inr ''  ''\<rparr>
      else Resolved \<lparr>ok = True, http_status = 200, statusText = ''OK'',
                     json_contents = Inl (Error ''Unexpected token''),
                     text_body = Inr ''<table class=table>''\<rparr>)"

definition exampleNow :: Date where
  "exampleNow = 1715904000000"

definition exampleEnv :: Env where
  "exampleEnv =
     \<lparr>isNativePlatform = True,
      now = exampleNow,
      newDate = (\<lambda>s. if s = ''2024-05-27'' then 1716768000000
                     else if s = ''2024-05-13'' then 1715558400000
                     else if s = ''2024-01-11'' then 1704931200000
                     else 1704153600000),
      fetch = exampleNet,
      parseFromString = exampleParse,
      cancelRejects = False,
      scheduleRejects = False,
      setItemThrows = False\<rparr>"

definition exampleParams :: SearchParams where
  "exampleParams =
     \<lparr>fref = Some '' REF1 '', frid = Some ''8001015009087'', fserial = None,
      fsref = None, fid = Some ''  '', fiserial = None\<rparr>"

text \<open>
  A firearm whose licence expires ten days after the lookup above, one whose licence
  expired in January, and three applications: of 2 January (95 working days pending), of
  11 January (88) and of 13 May (5).
\<close>

definition exampleFirearm :: FirearmRecord where
  "exampleFirearm =
     \<lparr>firearm_id = ''1700000000001'', firearm_title = ''Glock 19'', issueDate = ''2019-05-27'',
      licence_section = ''13'', expiryDate = ''2024-05-27'', firearm_make = Some ''Glock'',
      serialNumber = None, firearm_notes = None, createdAt = ''2023-11-14T22:13:20.001Z''\<rparr>"

definition expiredFirearm :: FirearmRecord where
  "expiredFirearm =
     \<lparr>firearm_id = ''1700000000002'', firearm_title = ''CZ 75'', issueDate = ''2014-01-02'',
      licence_section = ''15'', expiryDate = ''2024-01-02'', firearm_make = None,
      serialNumber = None, firearm_notes = None, createdAt = ''2023-11-14T22:13:20.002Z''\<rparr>"

definition otherFirearm :: FirearmRecord where
  "otherFirearm =
     \<lparr>firearm_id = ''1700000000003'', firearm_title = ''Ruger 10/22'', issueDate = ''2019-05-27'',
      licence_section = ''15'', expiryDate = ''2024-05-27'', firearm_make = None,
      serialNumber = None, firearm_notes = None, createdAt = ''2023-11-14T22:13:20.003Z''\<rparr>"

definition exampleApplication :: "string \<Rightarrow> string \<Rightarrow> string \<Rightarrow> FirearmApplication" where
  "exampleApplication ident ref applied =
     \<lparr>application_id = ident, applicationRefNumber = ref, idNumber = ''8001015009087'',
      dateApplied = applied, application_createdAt = ''2024-01-12T08:00:00.000Z'',
      searchMethod = Some REF_ID, application_serialNumber = None, gunReference = None,
      application_title = None\<rparr>"

definition exampleApplications :: "FirearmApplication list" where
  "exampleApplications =
     [exampleApplication ''1705000000001'' ''REF1'' ''2024-01-02'',
      exampleApplication ''1705000000002'' ''REF2'' ''2024-05-13'',
      exampleApplication ''1705000000003'' ''REF3'' ''2024-01-11'']"

text \<open>A state with one application reminder scheduled earlier.\<close>

definition exampleState :: State where
  "exampleState =
     \<lparr>notificationCounter = 1001,
      firearm_notification_schedule = None,
      application_notification_schedule =
        Some [\<lparr>applicationId = ''1705000000001'', applicationRef = ''REF1'',
               notificationId = 1000\<rparr>],
      firearm_records = Some [exampleFirearm, otherFirearm],
      pending =
        [applicationNotification (exampleApplication ''1705000000001'' ''REF1'' ''2024-01-02'')
           1715817660000 94 1000],
      errors = []\<rparr>"

text \<open>
  Two firearms scheduled one after the other in one run of the application, and the same
  two with a new start of the application in between, which sets the counter back to 1000.
\<close>

definition twoFirearmsState :: State where
  "twoFirearmsState =
     scheduleFirearmNotifications exampleEnv otherFirearm
       (scheduleFirearmNotifications exampleEnv exampleFirearm
          (initialState\<lparr>firearm_records := Some [exampleFirearm, otherFirearm]\<rparr>))"

definition restartedState :: State where
  "restartedState =
     scheduleFirearmNotifications exampleEnv otherFirearm
       (restart
          (scheduleFirearmNotifications exampleEnv exampleFirearm
             (initialState\<lparr>firearm_records := Some [exampleFirearm, otherFirearm]\<rparr>)))"

section \<open>Verified properties\<close>

lemma setDate_getDate: "setDate t (getDate t + k) = t + k * msPerDay"
  by (simp add: setDate_def Day_def TimeWithinDay_def algebra_simps)

subsection \<open>Working days\<close>

lemma msPerDay_pos: "0 < msPerDay"
  by (simp add: msPerDay_def)

lemma walked_finite: "finite (walked c e)"
proof (rule finite_subset)
  show "walked c e \<subseteq> {k. k \<le> nat (e - c)}"
  proof
    fix k assume "k \<in> walked c e"
    then have le: "c + int k * msPerDay \<le> e" by (simp add: walked_def)
    have "int k * 1 \<le> int k * msPerDay"
      by (rule mult_left_mono) (simp_all add: msPerDay_def)
    with le have "int k \<le> e - c" by simp
    then show "k \<in> {k. k \<le> nat (e - c)}" by simp
  qed
  show "finite {k::nat. k \<le> nat (e - c)}" by simp
qed

lemma walked_empty:
  assumes "e < c"
  shows "walked c e = {}"
proof -
  have "\<not> c + int k * msPerDay \<le> e" for k :: nat
  proof -
    have "0 \<le> int k * msPerDay" by (simp add: msPerDay_def)
    with assms show ?thesis by simp
  qed
  then show ?thesis by (simp add: walked_def)
qed

lemma walked_step:
  assumes "c \<le> e"
  shows "walked c e = (if isWorkingDay c then {0} else {}) \<union> Suc ` walked (c + msPerDay) e"
proof (rule set_eqI)
  fix k
  show "k \<in> walked c e \<longleftrightarrow> k \<in> (if isWorkingDay c then {0} else {}) \<union> Suc ` walked (c + msPerDay) e"
  proof (cases k)
    case 0
    with assms show ?thesis by (auto simp: walked_def)
  next
    case (Suc j)
    have eq: "c + int (Suc j) * msPerDay = c + msPerDay + int j * msPerDay"
      by (simp add: algebra_simps)
    have "k \<in> walked c e \<longleftrightarrow> j \<in> walked (c + msPerDay) e"
      by (simp only: walked_def mem_Collect_eq Suc eq)
    moreover have "k \<in> (if isWorkingDay c then {0} else {}) \<union> Suc ` walked (c + msPerDay) e
        \<longleftrightarrow> j \<in> walked (c + msPerDay) e"
      by (auto simp: Suc)
    ultimately show ?thesis by simp
  qed
qed

lemma loop_counts:
  "calculateWorkingDays_loop c e w = w + card (walked c e)"
proof (induction c e w rule: calculateWorkingDays_loop.induct)
  case (1 current endDate workingDays)
  show ?case
  proof (cases "current \<le> endDate")
    case False
    then show ?thesis
      by (simp add: calculateWorkingDays_loop.simps [of current] walked_empty)
  next
    case True
    let ?next = "walked (current + msPerDay) endDate"
    have fin: "finite (Suc ` ?next)" by (simp add: walked_finite)
    have card_img: "card (Suc ` ?next) = card ?next"
      by (simp add: card_image)
    have "card (walked current endDate) = (if isWorkingDay current then 1 else 0) + card ?next"
      using fin card_img by (auto simp: walked_step [OF True])
    moreover have "calculateWorkingDays_loop current endDate workingDays =
        (if isWorkingDay current then workingDays + 1 else workingDays) + card ?next"
      using "1.IH" [OF True] True
      by (simp add: calculateWorkingDays_loop.simps [of current] setDate_getDate [of _ 1, simplified])
    ultimately show ?thesis by simp
  qed
qed

lemma isWorkingDay_Day: "Day t = Day t' \<Longrightarrow> isWorkingDay t = isWorkingDay t'"
  by (simp add: isWorkingDay_def isWeekend_def isPublicHoliday_def getDay_def getFullYear_def
      format_MM_dd_def getMonth_def getDate_def)

lemma Day_midnight: "Day (n * msPerDay) = n"
  by (simp add: Day_def msPerDay_def)

lemma Day_add: "Day (t + k * msPerDay) = Day t + k"
  by (simp add: Day_def msPerDay_def)

lemma date_split: "t = Day t * msPerDay + TimeWithinDay t"
  by (simp add: Day_def TimeWithinDay_def)

lemma walk_le_iff:
  assumes "TimeWithinDay s \<le> TimeWithinDay e"
  shows "s + k * msPerDay \<le> e \<longleftrightarrow> Day s + k \<le> Day e"
proof
  assume "s + k * msPerDay \<le> e"
  then have "Day (s + k * msPerDay) \<le> Day e"
    unfolding Day_def by (rule zdiv_mono1) (simp add: msPerDay_def)
  then show "Day s + k \<le> Day e" by (simp add: Day_add)
next
  assume le: "Day s + k \<le> Day e"
  have "(Day s + k) * msPerDay \<le> Day e * msPerDay"
    using le by (rule mult_right_mono) (simp add: msPerDay_def)
  then have "Day s * msPerDay + TimeWithinDay s + k * msPerDay \<le> Day e * msPerDay + TimeWithinDay e"
    using assms by (simp add: algebra_simps)
  then show "s + k * msPerDay \<le> e"
    using date_split [of s] date_split [of e] by simp
qed

lemma card_walked_instants:
  "card {t. (\<exists>k::nat. t = s + int k * msPerDay) \<and> t \<le> e \<and> isWorkingDay t} = card (walked s e)"
proof -
  have inj: "inj_on (\<lambda>k::nat. s + int k * msPerDay) (walked s e)"
    by (rule inj_onI) (simp add: msPerDay_def)
  have "{t. (\<exists>k::nat. t = s + int k * msPerDay) \<and> t \<le> e \<and> isWorkingDay t}
      = (\<lambda>k::nat. s + int k * msPerDay) ` walked s e"
    by (auto simp: walked_def)
  then show ?thesis by (simp add: card_image [OF inj])
qed

lemma card_walked_days:
  assumes "TimeWithinDay s \<le> TimeWithinDay e"
  shows "card {n. Day s \<le> n \<and> n \<le> Day e \<and> isWorkingDay (n * msPerDay)} = card (walked s e)"
proof -
  have inj: "inj_on (\<lambda>k::nat. Day s + int k) (walked s e)"
    by (rule inj_onI) simp
  have wd: "isWorkingDay (s + int k * msPerDay) = isWorkingDay ((Day s + int k) * msPerDay)" for k :: nat
    by (rule isWorkingDay_Day) (simp add: Day_add Day_midnight)
  have "{n. Day s \<le> n \<and> n \<le> Day e \<and> isWorkingDay (n * msPerDay)}
      = (\<lambda>k::nat. Day s + int k) ` walked s e" (is "?L = ?R")
  proof (rule set_eqI)
    fix n
    show "n \<in> ?L \<longleftrightarrow> n \<in> ?R"
    proof
      assume "n \<in> ?L"
      then have n: "Day s \<le> n" "n \<le> Day e" "isWorkingDay (n * msPerDay)" by simp_all
      define k where "k = nat (n - Day s)"
      have nk: "n = Day s + int k" using n(1) by (simp add: k_def)
      have "k \<in> walked s e"
        using n(2,3) by (simp add: walked_def walk_le_iff [OF assms] wd nk)
      then show "n \<in> ?R" using nk by blast
    next
      assume "n \<in> ?R"
      then obtain k where k: "k \<in> walked s e" "n = Day s + int k" by blast
      then show "n \<in> ?L"
        by (simp add: walked_def walk_le_iff [OF assms] wd)
    qed
  qed
  then show ?thesis by (simp add: card_image [OF inj])
qed

text \<open>
  \<open>calculateWorkingDays\<close> walks from \<open>startDate\<close> one day at a time while it is not after
  \<open>endDate\<close> and counts the working days it meets: the result is the number of working days
  among \<open>startDate\<close>, \<open>startDate\<close> + 1 day, ... up to \<open>endDate\<close>, \<open>startDate\<close> included. When
  the time of day of \<open>startDate\<close> is not after that of \<open>endDate\<close> (two dates without a time,
  for one) this is the number of working days among the calendar days from the day of
  \<open>startDate\<close> to the day of \<open>endDate\<close>, both included. It is 0 when \<open>startDate\<close> is after
  \<open>endDate\<close>; on the range from \<open>d\<close> to \<open>d\<close> it is 1 when \<open>d\<close> is a working day and 0
  otherwise, so 0 when \<open>d\<close> is a public holiday.
\<close>

lemma calculateWorkingDays_counts:
  "calculateWorkingDays startDate endDate =
     card {t. (\<exists>k::nat. t = startDate + int k * msPerDay) \<and> t \<le> endDate \<and> isWorkingDay t}
   \<and> (TimeWithinDay startDate \<le> TimeWithinDay endDate \<longrightarrow>
        calculateWorkingDays startDate endDate =
          card {n. Day startDate \<le> n \<and> n \<le> Day endDate \<and> isWorkingDay (n * msPerDay)})
   \<and> (endDate < startDate \<longrightarrow> calculateWorkingDays startDate endDate = 0)
   \<and> calculateWorkingDays d d = (if isWorkingDay d then 1 else 0)
   \<and> (isPublicHoliday d \<longrightarrow> calculateWorkingDays d d = 0)"
proof -
  have count: "calculateWorkingDays s e = card (walked s e)" for s e
    by (simp add: calculateWorkingDays_def loop_counts)
  have single: "calculateWorkingDays d d = (if isWorkingDay d then 1 else 0)"
  proof -
    have "walked (d + msPerDay) d = {}"
      by (rule walked_empty) (simp add: msPerDay_def)
    then show ?thesis
      by (simp add: count walked_step [of d d])
  qed
  have "calculateWorkingDays startDate endDate =
     card {t. (\<exists>k::nat. t = startDate + int k * msPerDay) \<and> t \<le> endDate \<and> isWorkingDay t}"
    by (simp add: count card_walked_instants)
  moreover have "TimeWithinDay startDate \<le> TimeWithinDay endDate \<longrightarrow>
        calculateWorkingDays startDate endDate =
          card {n. Day startDate \<le> n \<and> n \<le> Day endDate \<and> isWorkingDay (n * msPerDay)}"
    by (simp add: count card_walked_days)
  moreover have "endDate < startDate \<longrightarrow> calculateWorkingDays startDate endDate = 0"
    by (simp add: count walked_empty)
  moreover have "isPublicHoliday d \<longrightarrow> calculateWorkingDays d d = 0"
    by (simp add: single isWorkingDay_def)
  ultimately show ?thesis using single by blast
qed

lemma calculateWorkingDays_counts_witness:
  "TimeWithinDay 1704067200000 \<le> TimeWithinDay 1704585600000
   \<and> card {n. Day 1704067200000 \<le> n \<and> n \<le> Day 1704585600000 \<and> isWorkingDay (n * msPerDay)} = 4
   \<and> (1704067199999::int) < 1704067200000
   \<and> calculateWorkingDays 1704067200000 1704067199999 = 0
   \<and> isPublicHoliday 1704067200000
   \<and> calculateWorkingDays 1704067200000 1704067200000 = 0"
proof -
  have tod: "TimeWithinDay 1704067200000 \<le> TimeWithinDay 1704585600000"
    by (simp add: TimeWithinDay_def msPerDay_def)
  have hol: "isPublicHoliday 1704067200000"
    by code_simp
  have four: "calculateWorkingDays 1704067200000 1704585600000 = 4"
    by code_simp
  have lt: "(1704067199999::int) < 1704067200000"
    by simp
  show ?thesis
    using calculateWorkingDays_counts [of 1704067200000 1704585600000 1704067200000]
      calculateWorkingDays_counts [of 1704067200000 1704067199999 1704067200000]
      tod hol four lt
    by simp
qed

lemma TimeWithinDay_range: "0 \<le> TimeWithinDay t \<and> TimeWithinDay t < msPerDay"
  by (simp add: TimeWithinDay_def msPerDay_def)

lemma walk_le_iff_later:
  assumes "TimeWithinDay e < TimeWithinDay s"
  shows "s + k * msPerDay \<le> e \<longleftrightarrow> Day s + k < Day e"
proof
  assume le: "s + k * msPerDay \<le> e"
  then have "Day (s + k * msPerDay) \<le> Day e"
    unfolding Day_def by (rule zdiv_mono1) (simp add: msPerDay_def)
  then have d: "Day s + k \<le> Day e" by (simp add: Day_add)
  have "Day s + k \<noteq> Day e"
  proof
    assume eq: "Day s + k = Day e"
    have "Day s * msPerDay + TimeWithinDay s + k * msPerDay \<le> Day e * msPerDay + TimeWithinDay e"
      using le date_split [of s] date_split [of e] by simp
    then have "TimeWithinDay s \<le> TimeWithinDay e"
      by (simp add: eq [symmetric] algebra_simps)
    with assms show False by simp
  qed
  with d show "Day s + k < Day e" by simp
next
  assume "Day s + k < Day e"
  then have "Day s + k + 1 \<le> Day e" by simp
  then have "(Day s + k + 1) * msPerDay \<le> Day e * msPerDay"
    by (rule mult_right_mono) (simp add: msPerDay_def)
  moreover have "TimeWithinDay s < msPerDay" "0 \<le> TimeWithinDay e"
    using TimeWithinDay_range by simp_all
  ultimately have "Day s * msPerDay + TimeWithinDay s + k * msPerDay \<le> Day e * msPerDay + TimeWithinDay e"
    by (simp add: algebra_simps)
  then show "s + k * msPerDay \<le> e"
    using date_split [of s] date_split [of e] by simp
qed

lemma card_walked_days_later:
  assumes "TimeWithinDay e < TimeWithinDay s"
  shows "card {n. Day s \<le> n \<and> n < Day e \<and> isWorkingDay (n * msPerDay)} = card (walked s e)"
proof -
  have inj: "inj_on (\<lambda>k::nat. Day s + int k) (walked s e)"
    by (rule inj_onI) simp
  have wd: "isWorkingDay (s + int k * msPerDay) = isWorkingDay ((Day s + int k) * msPerDay)" for k :: nat
    by (rule isWorkingDay_Day) (simp add: Day_add Day_midnight)
  have "{n. Day s \<le> n \<and> n < Day e \<and> isWorkingDay (n * msPerDay)}
      = (\<lambda>k::nat. Day s + int k) ` walked s e" (is "?L = ?R")
  proof (rule set_eqI)
    fix n
    show "n \<in> ?L \<longleftrightarrow> n \<in> ?R"
    proof
      assume "n \<in> ?L"
      then have n: "Day s \<le> n" "n < Day e" "isWorkingDay (n * msPerDay)" by simp_all
      define k where "k = nat (n - Day s)"
      have nk: "n = Day s + int k" using n(1) by (simp add: k_def)
      have "k \<in> walked s e"
        using n(2,3) by (simp add: walked_def walk_le_iff_later [OF assms] wd nk)
      then show "n \<in> ?R" using nk by blast
    next
      assume "n \<in> ?R"
      then obtain k where k: "k \<in> walked s e" "n = Day s + int k" by blast
      then show "n \<in> ?L"
        by (simp add: walked_def walk_le_iff_later [OF assms] wd)
    qed
  qed
  then show ?thesis by (simp add: card_image [OF inj])
qed

text \<open>
  When the time of day of \<open>startDate\<close> is after that of \<open>endDate\<close>, the walk passes the
  day of \<open>endDate\<close> at an instant after \<open>endDate\<close>: that day is left out of the count,
  whatever it is.
\<close>

lemma calculateWorkingDays_later_start:
  assumes "TimeWithinDay endDate < TimeWithinDay startDate"
  shows "calculateWorkingDays startDate endDate =
           card {n. Day startDate \<le> n \<and> n < Day endDate \<and> isWorkingDay (n * msPerDay)}"
  by (simp add: calculateWorkingDays_def loop_counts card_walked_days_later [OF assms])

lemma working_days_of_range:
  assumes "Day s = Day s'" "Day e = Day e'" "TimeWithinDay s' \<le> TimeWithinDay e'"
  shows "card {n. Day s \<le> n \<and> n \<le> Day e \<and> isWorkingDay (n * msPerDay)} =
           calculateWorkingDays s' e'"
  by (simp add: assms(1,2) calculateWorkingDays_def loop_counts card_walked_days [OF assms(3)])

lemma example_working_days:
  "calculateWorkingDays (newDate exampleEnv ''2024-01-02'') (now exampleEnv) = 95"
  by code_simp

lemma example_working_days_before_two:
  "calculateWorkingDays 1704160800000 1715907600000 = 94"
  by code_simp

text \<open>
  C1. The count of \<open>calculateWorkingDays\<close> is not always the number of working days of the
  inclusive range: the walk compares instants, so the day of \<open>endDate\<close> is counted only
  when the time of day of \<open>startDate\<close> is not after that of \<open>endDate\<close>. From Tuesday
  2 January 2024 at 02:00 to Friday 5 January 2024 at 01:00 the four days of the range are
  working days and the result is 3. The callers pass such dates: \<open>new Date('2024-01-02')\<close>
  is midnight UTC, 02:00 in South Africa, and \<open>new Date()\<close> is the present instant. From
  2 January 2024 to 17 May 2024 there are 95 working days; with the start at 02:00 the
  result is 94 at 01:00 on 17 May and 95 at 02:00 the same day.
\<close>

theorem calculateWorkingDays_drops_end_day:
  "(1704160800000::int) = newDateYMD 2024 0 2 + 2 * 3600000
   \<and> (1704416400000::int) = newDateYMD 2024 0 5 + 1 * 3600000
   \<and> (1715907600000::int) = newDateYMD 2024 4 17 + 1 * 3600000
   \<and> (1715911200000::int) = newDateYMD 2024 4 17 + 2 * 3600000
   \<and> [isWorkingDay (newDateYMD 2024 0 2), isWorkingDay (newDateYMD 2024 0 3),
       isWorkingDay (newDateYMD 2024 0 4), isWorkingDay (newDateYMD 2024 0 5)] =
      [True, True, True, True]
   \<and> card {n. Day 1704160800000 \<le> n \<and> n \<le> Day 1704416400000 \<and> isWorkingDay (n * msPerDay)} = 4
   \<and> calculateWorkingDays 1704160800000 1704416400000 = 3
   \<and> calculateWorkingDays 1704160800000 1704416400000 \<noteq>
       card {n. Day 1704160800000 \<le> n \<and> n \<le> Day 1704416400000 \<and> isWorkingDay (n * msPerDay)}
   \<and> card {n. Day 1704160800000 \<le> n \<and> n \<le> Day 1715907600000 \<and> isWorkingDay (n * msPerDay)} = 95
   \<and> calculateWorkingDays 1704160800000 1715907600000 = 94
   \<and> calculateWorkingDays 1704160800000 1715911200000 = 95"
proof -
  have a: "(1704160800000::int) = newDateYMD 2024 0 2 + 2 * 3600000" by code_simp
  have b: "(1704416400000::int) = newDateYMD 2024 0 5 + 1 * 3600000" by code_simp
  have c: "(1715907600000::int) = newDateYMD 2024 4 17 + 1 * 3600000" by code_simp
  have c': "(1715911200000::int) = newDateYMD 2024 4 17 + 2 * 3600000" by code_simp
  have d: "[isWorkingDay (newDateYMD 2024 0 2), isWorkingDay (newDateYMD 2024 0 3),
       isWorkingDay (newDateYMD 2024 0 4), isWorkingDay (newDateYMD 2024 0 5)] =
      [True, True, True, True]" by code_simp
  have day: "Day 1704160800000 = Day 1704153600000"
      "Day 1715907600000 = Day 1715904000000"
      "Day 1715907600000 = Day 1715911200000"
    by (simp_all add: Day_def msPerDay_def)
  have tod: "TimeWithinDay 1704153600000 \<le> TimeWithinDay 1704416400000"
      "TimeWithinDay 1704153600000 \<le> TimeWithinDay 1715904000000"
      "TimeWithinDay 1704160800000 \<le> TimeWithinDay 1715911200000"
    by (simp_all add: TimeWithinDay_def msPerDay_def)
  have four: "calculateWorkingDays 1704153600000 1704416400000 = 4" by code_simp
  have e: "card {n. Day 1704160800000 \<le> n \<and> n \<le> Day 1704416400000 \<and> isWorkingDay (n * msPerDay)} = 4"
    using working_days_of_range [OF day(1) refl tod(1)] four by simp
  have f: "calculateWorkingDays 1704160800000 1704416400000 = 3" by code_simp
  have g: "calculateWorkingDays 1704160800000 1704416400000 \<noteq>
       card {n. Day 1704160800000 \<le> n \<and> n \<le> Day 1704416400000 \<and> isWorkingDay (n * msPerDay)}"
    unfolding e f by simp
  have all: "calculateWorkingDays 1704153600000 1715904000000 = 95"
    using example_working_days by (simp add: exampleEnv_def exampleNow_def)
  have h: "card {n. Day 1704160800000 \<le> n \<and> n \<le> Day 1715907600000 \<and> isWorkingDay (n * msPerDay)} = 95"
    using working_days_of_range [OF day(1) day(2) tod(2)] all by simp
  have i: "calculateWorkingDays 1704160800000 1715907600000 = 94"
    by (rule example_working_days_before_two)
  have "card {n. Day 1704160800000 \<le> n \<and> n \<le> Day 1715907600000 \<and> isWorkingDay (n * msPerDay)} =
      calculateWorkingDays 1704160800000 1715911200000"
    by (rule working_days_of_range [OF refl day(3) tod(3)])
  with h have j: "calculateWorkingDays 1704160800000 1715911200000 = 95" by simp
  from a b c c' d e f g h i j show ?thesis by (intro conjI)
qed

lemma setDate_minus: "setDate t (getDate t - k) = t - k * msPerDay"
  using setDate_getDate [of t "- k"] by simp

lemma getEasterBasedHolidays_eq:
  "getEasterBasedHolidays year =
     [format_MM_dd (getEasterDate year - 2 * msPerDay), format_MM_dd (getEasterDate year + msPerDay)]"
  using setDate_getDate [of "getEasterDate year" 1] setDate_minus [of "getEasterDate year" 2]
  by (simp add: getEasterBasedHolidays_def Let_def)

text \<open>
  C2. \<open>isWorkingDay d\<close> is false exactly when \<open>d\<close> is a Saturday or a Sunday, or its month
  and day are one of the ten fixed holidays, or those of the day two days before Easter
  Sunday of the year of \<open>d\<close> (Good Friday), or of the day after it (Family Day), with
  Easter Sunday as \<open>getEasterDate\<close> computes it. For 2024 Easter Sunday is 31 March, Good
  Friday 29 March and Family Day 1 April, and for the years 2020 to 2030 \<open>getEasterDate\<close>
  gives the published dates of Easter Sunday, each a Sunday, with Good Friday two days
  before and Family Day one day after.
\<close>

theorem isWorkingDay_false_iff:
  "(isWorkingDay d = False) =
     (getDay d = 6 \<or> getDay d = 0
      \<or> format_MM_dd d \<in> {''01-01'', ''03-21'', ''04-27'', ''05-01'', ''06-16'',
                             ''08-09'', ''09-24'', ''12-16'', ''12-25'', ''12-26''}
      \<or> format_MM_dd d = format_MM_dd (getEasterDate (getFullYear d) - 2 * msPerDay)
      \<or> format_MM_dd d = format_MM_dd (getEasterDate (getFullYear d) + 1 * msPerDay))
   \<and> getEasterDate 2024 = newDateYMD 2024 2 31
   \<and> format_MM_dd (getEasterDate 2024) = ''03-31''
   \<and> format_MM_dd (getEasterDate 2024 - 2 * msPerDay) = ''03-29''
   \<and> format_MM_dd (getEasterDate 2024 + 1 * msPerDay) = ''04-01''
   \<and> getEasterBasedHolidays 2024 = [''03-29'', ''04-01'']
   \<and> [format_MM_dd (getEasterDate 2020), format_MM_dd (getEasterDate 2021),
        format_MM_dd (getEasterDate 2022), format_MM_dd (getEasterDate 2023),
        format_MM_dd (getEasterDate 2024), format_MM_dd (getEasterDate 2025),
        format_MM_dd (getEasterDate 2026), format_MM_dd (getEasterDate 2027),
        format_MM_dd (getEasterDate 2028), format_MM_dd (getEasterDate 2029),
        format_MM_dd (getEasterDate 2030)] =
       [''04-12'', ''04-04'', ''04-17'', ''04-09'', ''03-31'', ''04-20'',
        ''04-05'', ''03-28'', ''04-16'', ''04-01'', ''04-21'']
   \<and> [getDay (getEasterDate 2020), getDay (getEasterDate 2021), getDay (getEasterDate 2022),
        getDay (getEasterDate 2023), getDay (getEasterDate 2024), getDay (getEasterDate 2025),
        getDay (getEasterDate 2026), getDay (getEasterDate 2027), getDay (getEasterDate 2028),
        getDay (getEasterDate 2029), getDay (getEasterDate 2030)] =
       [0, 0, 0, 0, 0, 0, 0, 0, 0, 0, 0]
   \<and> [getEasterBasedHolidays 2020, getEasterBasedHolidays 2021, getEasterBasedHolidays 2022,
        getEasterBasedHolidays 2023, getEasterBasedHolidays 2024, getEasterBasedHolidays 2025,
        getEasterBasedHolidays 2026, getEasterBasedHolidays 2027, getEasterBasedHolidays 2028,
        getEasterBasedHolidays 2029, getEasterBasedHolidays 2030] =
       [[''04-10'', ''04-13''], [''04-02'', ''04-05''], [''04-15'', ''04-18''],
        [''04-07'', ''04-10''], [''03-29'', ''04-01''], [''04-18'', ''04-21''],
        [''04-03'', ''04-06''], [''03-26'', ''03-29''], [''04-14'', ''04-17''],
        [''03-30'', ''04-02''], [''04-19'', ''04-22'']]"
proof -
  have general: "(isWorkingDay d = False) =
     (getDay d = 6 \<or> getDay d = 0
      \<or> format_MM_dd d \<in> {''01-01'', ''03-21'', ''04-27'', ''05-01'', ''06-16'',
                             ''08-09'', ''09-24'', ''12-16'', ''12-25'', ''12-26''}
      \<or> format_MM_dd d = format_MM_dd (getEasterDate (getFullYear d) - 2 * msPerDay)
      \<or> format_MM_dd d = format_MM_dd (getEasterDate (getFullYear d) + 1 * msPerDay))"
  proof -
    have "isPublicHoliday d =
       (format_MM_dd d \<in> set FIXED_HOLIDAYS
        \<or> format_MM_dd d \<in> set (getEasterBasedHolidays (getFullYear d)))"
      by (simp add: isPublicHoliday_def Let_def)
    moreover have "set FIXED_HOLIDAYS = {''01-01'', ''03-21'', ''04-27'', ''05-01'', ''06-16'',
                             ''08-09'', ''09-24'', ''12-16'', ''12-25'', ''12-26''}"
      unfolding FIXED_HOLIDAYS_def by (simp only: list.set)
    moreover have "format_MM_dd d \<in> set (getEasterBasedHolidays (getFullYear d)) =
        (format_MM_dd d = format_MM_dd (getEasterDate (getFullYear d) - 2 * msPerDay)
         \<or> format_MM_dd d = format_MM_dd (getEasterDate (getFullYear d) + 1 * msPerDay))"
      unfolding getEasterBasedHolidays_eq by (simp only: list.set insert_iff empty_iff mult_1 simp_thms)
    ultimately show ?thesis
      unfolding isWorkingDay_def isWeekend_def by blast
  qed
  have e1: "getEasterDate 2024 = newDateYMD 2024 2 31" by code_simp
  have e2: "format_MM_dd (getEasterDate 2024) = ''03-31''" by code_simp
  have e3: "format_MM_dd (getEasterDate 2024 - 2 * msPerDay) = ''03-29''" by code_simp
  have e4: "format_MM_dd (getEasterDate 2024 + 1 * msPerDay) = ''04-01''" by code_simp
  have e5: "getEasterBasedHolidays 2024 = [''03-29'', ''04-01'']" by code_simp
  have e6: "[format_MM_dd (getEasterDate 2020), format_MM_dd (getEasterDate 2021),
        format_MM_dd (getEasterDate 2022), format_MM_dd (getEasterDate 2023),
        format_MM_dd (getEasterDate 2024), format_MM_dd (getEasterDate 2025),
        format_MM_dd (getEasterDate 2026), format_MM_dd (getEasterDate 2027),
        format_MM_dd (getEasterDate 2028), format_MM_dd (getEasterDate 2029),
        format_MM_dd (getEasterDate 2030)] =
       [''04-12'', ''04-04'', ''04-17'', ''04-09'', ''03-31'', ''04-20'',
        ''04-05'', ''03-28'', ''04-16'', ''04-01'', ''04-21'']" by code_simp
  have e7: "[getDay (getEasterDate 2020), getDay (getEasterDate 2021), getDay (getEasterDate 2022),
        getDay (getEasterDate 2023), getDay (getEasterDate 2024), getDay (getEasterDate 2025),
        getDay (getEasterDate 2026), getDay (getEasterDate 2027), getDay (getEasterDate 2028),
        getDay (getEasterDate 2029), getDay (getEasterDate 2030)] =
       [0, 0, 0, 0, 0, 0, 0, 0, 0, 0, 0]" by code_simp
  have e8: "[getEasterBasedHolidays 2020, getEasterBasedHolidays 2021, getEasterBasedHolidays 2022,
        getEasterBasedHolidays 2023, getEasterBasedHolidays 2024, getEasterBasedHolidays 2025,
        getEasterBasedHolidays 2026, getEasterBasedHolidays 2027, getEasterBasedHolidays 2028,
        getEasterBasedHolidays 2029, getEasterBasedHolidays 2030] =
       [[''04-10'', ''04-13''], [''04-02'', ''04-05''], [''04-15'', ''04-18''],
        [''04-07'', ''04-10''], [''03-29'', ''04-01''], [''04-18'', ''04-21''],
        [''04-03'', ''04-06''], [''03-26'', ''03-29''], [''04-14'', ''04-17''],
        [''03-30'', ''04-02''], [''04-19'', ''04-22'']]" by code_simp
  show ?thesis by (intro conjI) (fact general e1 e2 e3 e4 e5 e6 e7 e8)+
qed

subsection \<open>Proxy fallback\<close>












subsection \<open>Parsing the status page\<close>

lemma parseStatus_no_table:
  assumes "table (parseFromString env html) = None"
  shows "parseStatus env html applied =
     (if form (parseFromString env html)
      then failure ''No results found. Please verify your reference numbers are correct.''
      else failure ''No results table found on SAPS website. The page format may have changed.'')"
  using assms by (simp add: parseStatus_def Let_def)

lemma parseStatus_short_row:
  assumes "table (parseFromString env html) = Some rows" "1 < length rows" "length (rows ! 1) < 10"
  shows "parseStatus env html applied =
     failure (''Insufficient data columns found ('' @ showNat (length (rows ! 1)) @
              ''/10). Make sure your information is correct.'')"
  using assms by (simp add: parseStatus_def Let_def)

lemma parseStatus_row:
  assumes "table (parseFromString env html) = Some rows" "1 < length rows" "10 \<le> length (rows ! 1)"
  shows "parseStatus env html applied =
     \<lparr>success = True,
      result_status = Some
        \<lparr>type = orElse (cellValue (rows ! 1 ! 0)) ''Unknown'',
         number = orElse (cellValue (rows ! 1 ! 1)) ''Unknown'',
         calibre = orElse (cellValue (rows ! 1 ! 3)) ''Unknown'',
         status_make = orElse (cellValue (rows ! 1 ! 4)) ''Unknown'',
         status = orElse (cellValue (rows ! 1 ! 7)) ''Unknown'',
         description = orElse (cellValue (rows ! 1 ! 8)) ''No description available'',
         nextStep = orElse (cellValue (rows ! 1 ! 9)) ''No next step information'',
         workingDaysPending = calculateWorkingDays (newDate env applied) (now env),
         isOverdue = (90 < calculateWorkingDays (newDate env applied) (now env))\<rparr>,
      error = None\<rparr>"
proof -
  have ne: "rows ! Suc 0 \<noteq> []"
    using assms(3) by auto
  show ?thesis
    using assms by (simp add: parseStatus_def Let_def ne)
qed

lemma failure_not_success: "\<not> success (failure msg)"
  by (simp add: failure_def)

lemma fetchError_not_success: "\<not> success (fetchError message)"
  by (simp add: fetchError_def failure_not_success)

lemma parseStatus_success:
  assumes "success (parseStatus env html applied)"
  shows "\<exists>rows. table (parseFromString env html) = Some rows \<and> 1 < length rows \<and> 10 \<le> length (rows ! 1)"
proof (cases "table (parseFromString env html)")
  case None
  with assms show ?thesis
    by (simp add: parseStatus_no_table failure_not_success split: if_splits)
next
  case (Some rows)
  show ?thesis
  proof (cases "1 < length rows")
    case False
    with Some assms show ?thesis
      by (simp add: parseStatus_def Let_def failure_not_success)
  next
    case True
    show ?thesis
    proof (cases "length (rows ! 1) < 10")
      case True
      with Some \<open>1 < length rows\<close> assms show ?thesis
        by (simp add: parseStatus_short_row failure_not_success)
    next
      case False
      with Some \<open>1 < length rows\<close> show ?thesis by simp
    qed
  qed
qed

lemma fetchFirearmStatus_success:
  assumes "success (fetchFirearmStatus env params applied)"
  shows "\<exists>html. fetchWithProxy (fetch env) (buildQuery params) = Inr html
           \<and> fetchFirearmStatus env params applied = parseStatus env html applied"
proof (cases "fetchWithProxy (fetch env) (buildQuery params)")
  case (Inl message)
  with assms show ?thesis
    by (simp add: fetchFirearmStatus_def fetchFirearmStatus_over_def fetchWithProxy_def
        fetchError_not_success)
next
  case (Inr html)
  then show ?thesis
    by (simp add: fetchFirearmStatus_def fetchFirearmStatus_over_def fetchWithProxy_def)
qed

lemma orElse_nonempty: "placeholder \<noteq> [] \<Longrightarrow> orElse v placeholder \<noteq> []"
  by (simp add: orElse_def)

text \<open>From 2 January to 17 May 2024 there are 95 working days.\<close>

lemma example_lookup:
  "fetchFirearmStatus exampleEnv exampleParams ''2024-01-02'' =
     parseStatus exampleEnv ''<table class=table>'' ''2024-01-02''"
proof -
  have "fetchWithProxy_over CORS_PROXIES (fetch exampleEnv) (buildQuery exampleParams) =
      Inr ''<table class=table>''"
    by code_simp
  then show ?thesis
    by (simp add: fetchFirearmStatus_def fetchFirearmStatus_over_def)
qed

lemma example_page:
  "table (parseFromString exampleEnv ''<table class=table>'') = Some exampleRows"
  "1 < length exampleRows" "10 \<le> length (exampleRows ! 1)"
  by code_simp+

lemma example_cells:
  "cellValue (exampleRows ! 1 ! 0) = ''Competency''"
  "cellValue (exampleRows ! 1 ! 1) = ''12345''"
  "cellValue (exampleRows ! 1 ! 3) = ''9mm''"
  "cellValue (exampleRows ! 1 ! 4) = ''Glock''"
  "cellValue (exampleRows ! 1 ! 7) = ''Approved''"
  "cellValue (exampleRows ! 1 ! 8) = []"
  "cellValue (exampleRows ! 1 ! 9) = []"
  by code_simp+

text \<open>
  C4. The parse step of \<open>fetchFirearmStatus\<close>. With no results table on the page, a page with
  a form gives the failure "No results found" and a page without one the different failure
  "No results table found ... The page format may have changed". When the first data row
  has fewer than ten cells the result is the failure "Insufficient data columns found", not
  a status. When it has at least ten, the result is a success whose type, number, calibre,
  make, status, description and next step are the texts of the cells 0, 1, 3, 4, 7, 8 and
  9 (a placeholder standing for an empty text); the cells 2, 5 and 6 are not read. The
  result of \<open>fetchFirearmStatus\<close> is that of this step on the page fetched.
\<close>

theorem parseStatus_outcomes:
  "(table (parseFromString env html) = None \<and> form (parseFromString env html) \<longrightarrow>
      parseStatus env html applied =
        failure ''No results found. Please verify your reference numbers are correct.'')
   \<and> (table (parseFromString env html) = None \<and> \<not> form (parseFromString env html) \<longrightarrow>
      parseStatus env html applied =
        failure ''No results table found on SAPS website. The page format may have changed.'')
   \<and> failure ''No results found. Please verify your reference numbers are correct.'' \<noteq>
       failure ''No results table found on SAPS website. The page format may have changed.''
   \<and> (table (parseFromString env html) = Some rows \<and> 1 < length rows \<and> length (rows ! 1) < 10 \<longrightarrow>
      \<not> success (parseStatus env html applied)
      \<and> parseStatus env html applied =
          failure (''Insufficient data columns found ('' @ showNat (length (rows ! 1)) @
                   ''/10). Make sure your information is correct.''))
   \<and> (table (parseFromString env html) = Some rows \<and> 1 < length rows \<and> 10 \<le> length (rows ! 1) \<longrightarrow>
      parseStatus env html applied =
        \<lparr>success = True,
         result_status = Some
           \<lparr>type = orElse (cellValue (rows ! 1 ! 0)) ''Unknown'',
            number = orElse (cellValue (rows ! 1 ! 1)) ''Unknown'',
            calibre = orElse (cellValue (rows ! 1 ! 3)) ''Unknown'',
            status_make = orElse (cellValue (rows ! 1 ! 4)) ''Unknown'',
            status = orElse (cellValue (rows ! 1 ! 7)) ''Unknown'',
            description = orElse (cellValue (rows ! 1 ! 8)) ''No description available'',
            nextStep = orElse (cellValue (rows ! 1 ! 9)) ''No next step information'',
            workingDaysPending = calculateWorkingDays (newDate env applied) (now env),
            isOverdue = (90 < calculateWorkingDays (newDate env applied) (now env))\<rparr>,
         error = None\<rparr>)
   \<and> (fetchWithProxy (fetch env) (buildQuery params) = Inr html \<longrightarrow>
      fetchFirearmStatus env params applied = parseStatus env html applied)"
proof (intro conjI impI)
  show "failure ''No results found. Please verify your reference numbers are correct.'' \<noteq>
       failure ''No results table found on SAPS website. The page format may have changed.''"
    by (simp add: failure_def)
  show "parseStatus env html applied =
        failure ''No results found. Please verify your reference numbers are correct.''"
    if "table (parseFromString env html) = None \<and> form (parseFromString env html)"
    using that by (simp add: parseStatus_no_table)
  show "parseStatus env html applied =
        failure ''No results table found on SAPS website. The page format may have changed.''"
    if "table (parseFromString env html) = None \<and> \<not> form (parseFromString env html)"
    using that by (simp add: parseStatus_no_table)
  show "fetchFirearmStatus env params applied = parseStatus env html applied"
    if "fetchWithProxy (fetch env) (buildQuery params) = Inr html"
    using that by (simp add: fetchFirearmStatus_def fetchFirearmStatus_over_def fetchWithProxy_def)
next
  assume h: "table (parseFromString env html) = Some rows \<and> 1 < length rows \<and> length (rows ! 1) < 10"
  then show short: "parseStatus env html applied =
          failure (''Insufficient data columns found ('' @ showNat (length (rows ! 1)) @
                   ''/10). Make sure your information is correct.'')"
    by (simp only: parseStatus_short_row)
  then show "\<not> success (parseStatus env html applied)"
    by (simp only: failure_not_success not_False_eq_True)
next
  assume "table (parseFromString env html) = Some rows \<and> 1 < length rows \<and> 10 \<le> length (rows ! 1)"
  then show "parseStatus env html applied =
        \<lparr>success = True,
         result_status = Some
           \<lparr>type = orElse (cellValue (rows ! 1 ! 0)) ''Unknown'',
            number = orElse (cellValue (rows ! 1 ! 1)) ''Unknown'',
            calibre = orElse (cellValue (rows ! 1 ! 3)) ''Unknown'',
            status_make = orElse (cellValue (rows ! 1 ! 4)) ''Unknown'',
            status = orElse (cellValue (rows ! 1 ! 7)) ''Unknown'',
            description = orElse (cellValue (rows ! 1 ! 8)) ''No description available'',
            nextStep = orElse (cellValue (rows ! 1 ! 9)) ''No next step information'',
            workingDaysPending = calculateWorkingDays (newDate env applied) (now env),
            isOverdue = (90 < calculateWorkingDays (newDate env applied) (now env))\<rparr>,
         error = None\<rparr>"
    by (simp only: parseStatus_row)
qed

theorem parseStatus_outcomes_witness:
  "table (parseFromString exampleEnv ''<form></form>'') = None
   \<and> form (parseFromString exampleEnv ''<form></form>'')
   \<and> parseStatus exampleEnv ''<form></form>'' ''2024-01-02'' =
       failure ''No results found. Please verify your reference numbers are correct.''
   \<and> table (parseFromString exampleEnv ''<p>moved</p>'') = None
   \<and> \<not> form (parseFromString exampleEnv ''<p>moved</p>'')
   \<and> parseStatus exampleEnv ''<p>moved</p>'' ''2024-01-02'' =
       failure ''No results table found on SAPS website. The page format may have changed.''
   \<and> table (parseFromString exampleEnv ''<table class=table>short'') =
       Some [[], [Some ''Competency'', Some ''12345'']]
   \<and> parseStatus exampleEnv ''<table class=table>short'' ''2024-01-02'' =
       failure ''Insufficient data columns found (2/10). Make sure your information is correct.''
   \<and> table (parseFromString exampleEnv ''<table class=table>'') = Some exampleRows
   \<and> length (exampleRows ! 1) = 10
   \<and> fetchFirearmStatus exampleEnv exampleParams ''2024-01-02'' =
        \<lparr>success = True,
         result_status = Some
           \<lparr>type = ''Competency'', number = ''12345'', calibre = ''9mm'', status_make = ''Glock'',
            status = ''Approved'', description = ''No description available'',
            nextStep = ''No next step information'',
            workingDaysPending =
              calculateWorkingDays (newDate exampleEnv ''2024-01-02'') (now exampleEnv),
            isOverdue =
              (90 < calculateWorkingDays (newDate exampleEnv ''2024-01-02'') (now exampleEnv))\<rparr>,
         error = None\<rparr>"
proof -
  have a: "table (parseFromString exampleEnv ''<form></form>'') = None"
    "form (parseFromString exampleEnv ''<form></form>'')"
    by code_simp+
  have b: "table (parseFromString exampleEnv ''<p>moved</p>'') = None"
    "\<not> form (parseFromString exampleEnv ''<p>moved</p>'')"
    by code_simp+
  have c: "table (parseFromString exampleEnv ''<table class=table>short'') =
       Some [[], [Some ''Competency'', Some ''12345'']]"
    "1 < length [[], [Some ''Competency'', Some ''12345'']]"
    "length ([[], [Some ''Competency'', Some ''12345'']] ! 1) < 10"
    by code_simp+
  have c': "showNat (length ([[], [Some ''Competency'', Some ''12345'']] ! 1)) = ''2''"
    by code_simp
  have d: "fetchWithProxy (fetch exampleEnv) (buildQuery exampleParams) = Inr ''<table class=table>''"
    by code_simp
  have len: "length (exampleRows ! 1) = 10"
    by code_simp
  have r1: "parseStatus exampleEnv ''<form></form>'' ''2024-01-02'' =
       failure ''No results found. Please verify your reference numbers are correct.''"
    using parseStatus_outcomes [where env = exampleEnv and html = "''<form></form>''"] a by blast
  have r2: "parseStatus exampleEnv ''<p>moved</p>'' ''2024-01-02'' =
       failure ''No results table found on SAPS website. The page format may have changed.''"
    using parseStatus_outcomes [where env = exampleEnv and html = "''<p>moved</p>''"] b by blast
  have "parseStatus exampleEnv ''<table class=table>short'' ''2024-01-02'' =
       failure (''Insufficient data columns found ('' @
                showNat (length ([[], [Some ''Competency'', Some ''12345'']] ! 1)) @
                ''/10). Make sure your information is correct.'')"
    using parseStatus_outcomes [where env = exampleEnv and html = "''<table class=table>short''"
        and rows = "[[], [Some ''Competency'', Some ''12345'']]"] c by blast
  then have r3: "parseStatus exampleEnv ''<table class=table>short'' ''2024-01-02'' =
       failure ''Insufficient data columns found (2/10). Make sure your information is correct.''"
    unfolding c' by simp
  have "fetchFirearmStatus exampleEnv exampleParams ''2024-01-02'' =
        \<lparr>success = True,
         result_status = Some
           \<lparr>type = orElse (cellValue (exampleRows ! 1 ! 0)) ''Unknown'',
            number = orElse (cellValue (exampleRows ! 1 ! 1)) ''Unknown'',
            calibre = orElse (cellValue (exampleRows ! 1 ! 3)) ''Unknown'',
            status_make = orElse (cellValue (exampleRows ! 1 ! 4)) ''Unknown'',
            status = orElse (cellValue (exampleRows ! 1 ! 7)) ''Unknown'',
            description = orElse (cellValue (exampleRows ! 1 ! 8)) ''No description available'',
            nextStep = orElse (cellValue (exampleRows ! 1 ! 9)) ''No next step information'',
            workingDaysPending =
              calculateWorkingDays (newDate exampleEnv ''2024-01-02'') (now exampleEnv),
            isOverdue =
              (90 < calculateWorkingDays (newDate exampleEnv ''2024-01-02'') (now exampleEnv))\<rparr>,
         error = None\<rparr>"
    using parseStatus_outcomes [where env = exampleEnv and html = "''<table class=table>''"
        and rows = exampleRows and params = exampleParams and applied = "''2024-01-02''"]
      example_page d
    by simp
  then have r4: "fetchFirearmStatus exampleEnv exampleParams ''2024-01-02'' =
        \<lparr>success = True,
         result_status = Some
           \<lparr>type = ''Competency'', number = ''12345'', calibre = ''9mm'', status_make = ''Glock'',
            status = ''Approved'', description = ''No description available'',
            nextStep = ''No next step information'',
            workingDaysPending =
              calculateWorkingDays (newDate exampleEnv ''2024-01-02'') (now exampleEnv),
            isOverdue =
              (90 < calculateWorkingDays (newDate exampleEnv ''2024-01-02'') (now exampleEnv))\<rparr>,
         error = None\<rparr>"
    unfolding example_cells by (simp add: orElse_def)
  show ?thesis
    using a b c(1) example_page(1) len r1 r2 r3 r4 by (intro conjI) blast+
qed

text \<open>
  C5. In the status of a successful lookup, \<open>workingDaysPending\<close> is
  \<open>calculateWorkingDays\<close> from the date applied to today, and \<open>isOverdue\<close> is true exactly when
  \<open>workingDaysPending\<close> is greater than 90; so 95 working days pending are overdue.
\<close>

theorem fetchFirearmStatus_overdue:
  "success (fetchFirearmStatus env params applied) \<longrightarrow>
     (\<exists>st. result_status (fetchFirearmStatus env params applied) = Some st
        \<and> workingDaysPending st = calculateWorkingDays (newDate env applied) (now env)
        \<and> isOverdue st = (workingDaysPending st > 90)
        \<and> (workingDaysPending st = 95 \<longrightarrow> isOverdue st))"
proof
  assume ok: "success (fetchFirearmStatus env params applied)"
  from fetchFirearmStatus_success [OF ok] obtain html
    where eq: "fetchFirearmStatus env params applied = parseStatus env html applied"
    by blast
  with ok have "success (parseStatus env html applied)" by simp
  from parseStatus_success [OF this] obtain rows
    where "table (parseFromString env html) = Some rows" "1 < length rows" "10 \<le> length (rows ! 1)"
    by blast
  from parseStatus_row [OF this, of applied] eq
  show "\<exists>st. result_status (fetchFirearmStatus env params applied) = Some st
        \<and> workingDaysPending st = calculateWorkingDays (newDate env applied) (now env)
        \<and> isOverdue st = (workingDaysPending st > 90)
        \<and> (workingDaysPending st = 95 \<longrightarrow> isOverdue st)"
    by simp
qed

theorem fetchFirearmStatus_overdue_witness:
  "success (fetchFirearmStatus exampleEnv exampleParams ''2024-01-02'')
   \<and> (\<exists>st. result_status (fetchFirearmStatus exampleEnv exampleParams ''2024-01-02'') = Some st
         \<and> workingDaysPending st = 95 \<and> isOverdue st)"
proof -
  have ok: "success (fetchFirearmStatus exampleEnv exampleParams ''2024-01-02'')"
    by (simp add: example_lookup parseStatus_row [OF example_page])
  from fetchFirearmStatus_overdue [of exampleEnv exampleParams "''2024-01-02''"] ok
  obtain st where st: "result_status (fetchFirearmStatus exampleEnv exampleParams ''2024-01-02'') = Some st"
    "workingDaysPending st = calculateWorkingDays (newDate exampleEnv ''2024-01-02'') (now exampleEnv)"
    "workingDaysPending st = 95 \<longrightarrow> isOverdue st"
    by blast
  from st(2) have "workingDaysPending st = 95" by (simp only: example_working_days)
  with st ok show ?thesis by blast
qed

lemma orElse_if: "orElse v placeholder = (if v = [] then placeholder else v)"
  by (simp add: orElse_def)

text \<open>
  C10. A row of at least ten cells always gives a success, whatever the cells hold: an
  empty text in a cell read gives "Unknown" for type, number, calibre, make and status,
  "No description available" for the description and "No next step information" for the
  next step. So each of these seven fields of a status returned is a non-empty string.
\<close>

theorem empty_cells_get_placeholders:
  "(table (parseFromString env html) = Some rows \<and> 1 < length rows \<and> 10 \<le> length (rows ! 1) \<longrightarrow>
      success (parseStatus env html applied)
      \<and> (\<exists>st. result_status (parseStatus env html applied) = Some st
            \<and> type st = (if cellValue (rows ! 1 ! 0) = [] then ''Unknown''
                          else cellValue (rows ! 1 ! 0))
            \<and> number st = (if cellValue (rows ! 1 ! 1) = [] then ''Unknown''
                            else cellValue (rows ! 1 ! 1))
            \<and> calibre st = (if cellValue (rows ! 1 ! 3) = [] then ''Unknown''
                             else cellValue (rows ! 1 ! 3))
            \<and> status_make st = (if cellValue (rows ! 1 ! 4) = [] then ''Unknown''
                                 else cellValue (rows ! 1 ! 4))
            \<and> status st = (if cellValue (rows ! 1 ! 7) = [] then ''Unknown''
                            else cellValue (rows ! 1 ! 7))
            \<and> description st = (if cellValue (rows ! 1 ! 8) = [] then ''No description available''
                                 else cellValue (rows ! 1 ! 8))
            \<and> nextStep st = (if cellValue (rows ! 1 ! 9) = [] then ''No next step information''
                              else cellValue (rows ! 1 ! 9))))
   \<and> (success (fetchFirearmStatus env params applied) \<longrightarrow>
        (\<exists>st. result_status (fetchFirearmStatus env params applied) = Some st
           \<and> type st \<noteq> [] \<and> number st \<noteq> [] \<and> calibre st \<noteq> [] \<and> status_make st \<noteq> []
           \<and> status st \<noteq> [] \<and> description st \<noteq> [] \<and> nextStep st \<noteq> []))"
proof (intro conjI impI)
  assume "table (parseFromString env html) = Some rows \<and> 1 < length rows \<and> 10 \<le> length (rows ! 1)"
  then have row: "table (parseFromString env html) = Some rows" "1 < length rows"
    "10 \<le> length (rows ! 1)"
    by simp_all
  show "success (parseStatus env html applied)"
    by (simp add: parseStatus_row [OF row])
  show "\<exists>st. result_status (parseStatus env html applied) = Some st
            \<and> type st = (if cellValue (rows ! 1 ! 0) = [] then ''Unknown''
                          else cellValue (rows ! 1 ! 0))
            \<and> number st = (if cellValue (rows ! 1 ! 1) = [] then ''Unknown''
                            else cellValue (rows ! 1 ! 1))
            \<and> calibre st = (if cellValue (rows ! 1 ! 3) = [] then ''Unknown''
                             else cellValue (rows ! 1 ! 3))
            \<and> status_make st = (if cellValue (rows ! 1 ! 4) = [] then ''Unknown''
                                 else cellValue (rows ! 1 ! 4))
            \<and> status st = (if cellValue (rows ! 1 ! 7) = [] then ''Unknown''
                            else cellValue (rows ! 1 ! 7))
            \<and> description st = (if cellValue (rows ! 1 ! 8) = [] then ''No description available''
                                 else cellValue (rows ! 1 ! 8))
            \<and> nextStep st = (if cellValue (rows ! 1 ! 9) = [] then ''No next step information''
                              else cellValue (rows ! 1 ! 9))"
    by (simp add: parseStatus_row [OF row] orElse_if)
next
  assume ok: "success (fetchFirearmStatus env params applied)"
  from fetchFirearmStatus_success [OF ok] obtain html
    where eq: "fetchFirearmStatus env params applied = parseStatus env html applied"
    by blast
  with ok have "success (parseStatus env html applied)" by simp
  from parseStatus_success [OF this] obtain rows
    where "table (parseFromString env html) = Some rows" "1 < length rows" "10 \<le> length (rows ! 1)"
    by blast
  from parseStatus_row [OF this, of applied] eq
  show "\<exists>st. result_status (fetchFirearmStatus env params applied) = Some st
           \<and> type st \<noteq> [] \<and> number st \<noteq> [] \<and> calibre st \<noteq> [] \<and> status_make st \<noteq> []
           \<and> status st \<noteq> [] \<and> description st \<noteq> [] \<and> nextStep st \<noteq> []"
    by (simp add: orElse_nonempty)
qed

theorem empty_cells_get_placeholders_witness:
  "table (parseFromString exampleEnv ''<table class=table>'') = Some exampleRows
   \<and> 1 < length exampleRows \<and> 10 \<le> length (exampleRows ! 1)
   \<and> cellValue (exampleRows ! 1 ! 8) = []
   \<and> cellValue (exampleRows ! 1 ! 9) = []
   \<and> success (fetchFirearmStatus exampleEnv exampleParams ''2024-01-02'')
   \<and> (\<exists>st. result_status (fetchFirearmStatus exampleEnv exampleParams ''2024-01-02'') = Some st
         \<and> type st = ''Competency''
         \<and> description st = ''No description available''
         \<and> nextStep st = ''No next step information''
         \<and> type st \<noteq> [] \<and> number st \<noteq> [] \<and> calibre st \<noteq> [] \<and> status_make st \<noteq> []
         \<and> status st \<noteq> [] \<and> description st \<noteq> [] \<and> nextStep st \<noteq> [])"
proof -
  note T = empty_cells_get_placeholders [where env = exampleEnv and html = "''<table class=table>''"
      and rows = exampleRows and params = exampleParams and applied = "''2024-01-02''"]
  from T example_page have ok: "success (parseStatus exampleEnv ''<table class=table>'' ''2024-01-02'')"
    by blast
  from T example_page obtain st where st:
    "result_status (parseStatus exampleEnv ''<table class=table>'' ''2024-01-02'') = Some st"
    "type st = (if cellValue (exampleRows ! 1 ! 0) = [] then ''Unknown''
                else cellValue (exampleRows ! 1 ! 0))"
    "description st = (if cellValue (exampleRows ! 1 ! 8) = [] then ''No description available''
                       else cellValue (exampleRows ! 1 ! 8))"
    "nextStep st = (if cellValue (exampleRows ! 1 ! 9) = [] then ''No next step information''
                    else cellValue (exampleRows ! 1 ! 9))"
    by blast
  have vals: "type st = ''Competency''" "description st = ''No description available''"
    "nextStep st = ''No next step information''"
    using st(2-4) unfolding example_cells by simp_all
  from ok have ok': "success (fetchFirearmStatus exampleEnv exampleParams ''2024-01-02'')"
    by (simp only: example_lookup)
  with T obtain st' where st':
    "result_status (fetchFirearmStatus exampleEnv exampleParams ''2024-01-02'') = Some st'"
    "type st' \<noteq> []" "number st' \<noteq> []" "calibre st' \<noteq> []" "status_make st' \<noteq> []"
    "status st' \<noteq> []" "description st' \<noteq> []" "nextStep st' \<noteq> []"
    by blast
  from st(1) st'(1) have "st' = st" by (simp add: example_lookup)
  with st' vals ok' example_page example_cells(6,7) show ?thesis by blast
qed

subsection \<open>Firearm reminders\<close>

lemma scheduleFirearmStep_eq:
  "scheduleFirearmStep firearm expiry today (ns, ids, st) days =
     (if today < expiry - int days * msPerDay
      then (ns @ [firearmNotification firearm (expiry - int days * msPerDay) days (notificationCounter st)],
            ids @ [notificationCounter st],
            st\<lparr>notificationCounter := notificationCounter st + 1\<rparr>)
      else (ns, ids, st))"
  by (simp add: scheduleFirearmStep_def getNextNotificationId_def setDate_minus Let_def)

lemma firearm_loop:
  "foldl (scheduleFirearmStep firearm expiry today) (ns, ids, st) ds =
     (ns @ firearmBatch firearm expiry (notificationCounter st) (applicable expiry today ds),
      ids @ [notificationCounter st ..< notificationCounter st + length (applicable expiry today ds)],
      st\<lparr>notificationCounter := notificationCounter st + length (applicable expiry today ds)\<rparr>)"
proof (induction ds arbitrary: ns ids st)
  case Nil
  show ?case by (simp add: applicable_def firearmBatch_def)
next
  case (Cons d ds)
  show ?case
  proof (cases "today < expiry - int d * msPerDay")
    case False
    then show ?thesis
      by (simp add: scheduleFirearmStep_eq Cons.IH applicable_def)
  next
    case True
    let ?c = "notificationCounter st"
    let ?offs = "applicable expiry today ds"
    have app: "applicable expiry today (d # ds) = d # ?offs"
      using True by (simp add: applicable_def)
    have upt: "[?c ..< ?c + length (d # ?offs)] = ?c # [Suc ?c ..< Suc ?c + length ?offs]"
      using upt_conv_Cons [of ?c "?c + length (d # ?offs)"] by simp
    have batch: "firearmBatch firearm expiry ?c (d # ?offs) =
        firearmNotification firearm (expiry - int d * msPerDay) d ?c
          # firearmBatch firearm expiry (Suc ?c) ?offs"
      unfolding firearmBatch_def upt by simp
    have upt': "?c # [Suc ?c ..< Suc (?c + length ?offs)] = [?c ..< Suc (?c + length ?offs)]"
      by (rule upt_conv_Cons [symmetric]) simp
    show ?thesis
      using True
      by (simp add: scheduleFirearmStep_eq Cons.IH app batch upt' del: upt_Suc)
  qed
qed

lemma firearmBatch_length [simp]: "length (firearmBatch firearm expiry c offs) = length offs"
  by (simp add: firearmBatch_def)

lemma firearmBatch_empty [simp]: "(firearmBatch firearm expiry c offs = []) = (offs = [])"
  by (metis firearmBatch_length length_0_conv)

lemma loadSchedule_frame [simp]:
  "loadSchedule (st\<lparr>pending := p\<rparr>) = loadSchedule st"
  "loadSchedule (st\<lparr>notificationCounter := k\<rparr>) = loadSchedule st"
  by (simp_all add: loadSchedule_def)

lemma firearmBatch_days: "map daysToExpiry (firearmBatch firearm expiry c offs) = offs"
proof -
  have "daysToExpiry \<circ> (\<lambda>(days, ident).
      firearmNotification firearm (expiry - int days * msPerDay) days ident) = fst"
    by (auto simp: fun_eq_iff daysToExpiry_def firearmNotification_def)
  then show ?thesis by (simp add: firearmBatch_def)
qed

lemma firearmBatch_ids:
  "map notification_id (firearmBatch firearm expiry c offs) = [c ..< c + length offs]"
proof -
  have "notification_id \<circ> (\<lambda>(days, ident).
      firearmNotification firearm (expiry - int days * msPerDay) days ident) = snd"
    by (auto simp: fun_eq_iff firearmNotification_def)
  then show ?thesis by (simp add: firearmBatch_def)
qed

lemma firearmBatch_at:
  "map schedule_at (firearmBatch firearm expiry c offs) =
     map (\<lambda>days. expiry - int days * msPerDay) offs"
proof -
  have "schedule_at \<circ> (\<lambda>(days, ident).
      firearmNotification firearm (expiry - int days * msPerDay) days ident) =
      (\<lambda>days. expiry - int days * msPerDay) \<circ> fst"
    by (auto simp: fun_eq_iff firearmNotification_def)
  then have "map schedule_at (firearmBatch firearm expiry c offs) =
      map ((\<lambda>days. expiry - int days * msPerDay) \<circ> fst) (zip offs [c ..< c + length offs])"
    by (simp add: firearmBatch_def)
  also have "\<dots> = map (\<lambda>days. expiry - int days * msPerDay) (map fst (zip offs [c ..< c + length offs]))"
    by (simp only: map_map)
  finally show ?thesis by simp
qed

lemma firearmBatch_owner:
  "n \<in> set (firearmBatch firearm expiry c offs) \<Longrightarrow> isFirearmReminder (firearm_id firearm) n"
  by (auto simp: firearmBatch_def isFirearmReminder_def firearmNotification_def)

lemma cancel_counter:
  "notificationCounter (cancelFirearmNotifications env x st) = notificationCounter st"
  by (simp add: cancelFirearmNotifications_def saveSchedule_def logError_def Let_def
      split: option.splits)

lemma scheduleFirearmNotifications_unfold:
  fixes env :: Env and firearm :: FirearmRecord and st :: State
  assumes "isNativePlatform env"
  defines "st1 \<equiv> cancelFirearmNotifications env (firearm_id firearm) st"
  defines "expiry \<equiv> newDate env (expiryDate firearm)"
  defines "offs \<equiv> applicable expiry (now env) intervals"
  defines "c \<equiv> notificationCounter st"
  defines "st2 \<equiv> st1\<lparr>notificationCounter := c + length offs\<rparr>"
  defines "st3 \<equiv> st2\<lparr>pending := LocalNotifications_schedule (firearmBatch firearm expiry c offs) (pending st1)\<rparr>"
  defines "newSchedule \<equiv> \<lparr>firearmId = firearm_id firearm, firearmTitle = firearm_title firearm,
                          schedule_expiryDate = expiryDate firearm,
                          notificationIds = [c ..< c + length offs]\<rparr>"
  shows "scheduleFirearmNotifications env firearm st =
     (if offs = [] then st1
      else if scheduleRejects env then logError ''Failed to schedule notifications:'' st2
      else if 0 \<le> findIndex (\<lambda>s. firearmId s = firearm_id firearm) (loadSchedule st1)
      then saveSchedule env
             ((loadSchedule st1)[nat (findIndex (\<lambda>s. firearmId s = firearm_id firearm) (loadSchedule st1))
                := newSchedule]) st3
      else saveSchedule env (loadSchedule st1 @ [newSchedule]) st3)"
proof -
  have c: "notificationCounter st1 = c"
    by (simp add: st1_def c_def cancel_counter)
  have loop: "foldl (scheduleFirearmStep firearm expiry (now env)) ([], [], st1) intervals =
      (firearmBatch firearm expiry c offs, [c ..< c + length offs], st2)"
    by (simp add: firearm_loop c offs_def st2_def)
  have same: "st1\<lparr>notificationCounter := c\<rparr> = st1"
    using c by simp
  show ?thesis
  proof (cases "offs = []")
    case True
    with assms(1) loop same show ?thesis
      by (simp add: scheduleFirearmNotifications_def Let_def st1_def [symmetric]
          expiry_def [symmetric] st2_def)
  next
    case False
    with assms(1) loop show ?thesis
      unfolding st3_def st2_def newSchedule_def
      by (simp add: scheduleFirearmNotifications_def Let_def st1_def [symmetric]
          expiry_def [symmetric])
  qed
qed

lemma LocalNotifications_schedule_Nil [simp]: "LocalNotifications_schedule [] registered = registered"
  by (simp add: LocalNotifications_schedule_def)

lemma firearmBatch_Nil [simp]: "firearmBatch firearm expiry c [] = []"
  by (simp add: firearmBatch_def)

lemma pending_saveSchedule [simp]: "pending (saveSchedule env schedule st) = pending st"
  by (simp add: saveSchedule_def logError_def)

lemma cancel_errors:
  "\<not> cancelRejects env \<Longrightarrow> \<not> setItemThrows env \<Longrightarrow>
   errors (cancelFirearmNotifications env x st) = errors st"
  by (simp add: cancelFirearmNotifications_def saveSchedule_def Let_def split: option.splits)

lemma applicable_ten_days:
  "applicable (today + 10 * msPerDay) today intervals = [7, 3, 1]"
  by (simp add: applicable_def intervals_def msPerDay_def)

lemma schedule_pending:
  assumes "isNativePlatform env" "\<not> scheduleRejects env"
  shows "pending (scheduleFirearmNotifications env firearm st) =
     LocalNotifications_schedule
       (firearmBatch firearm (newDate env (expiryDate firearm)) (notificationCounter st)
          (applicable (newDate env (expiryDate firearm)) (now env) intervals))
       (pending (cancelFirearmNotifications env (firearm_id firearm) st))"
  using assms by (simp add: scheduleFirearmNotifications_unfold)

lemma schedule_nothing:
  assumes "isNativePlatform env"
    and "applicable (newDate env (expiryDate firearm)) (now env) intervals = []"
  shows "scheduleFirearmNotifications env firearm st =
     cancelFirearmNotifications env (firearm_id firearm) st"
  using assms by (simp add: scheduleFirearmNotifications_unfold)

text \<open>
  C6. On a native platform, when the plugin accepts the call, \<open>scheduleFirearmNotifications\<close>
  first cancels the reminders tracked for the record and then registers with the plugin
  exactly one reminder for each offset among 365, 180, 90, 60, 30, 14, 7, 3 and 1 days whose
  instant, the expiry date less the offset, is after now, and no other: each carries its
  offset and the record's identifier, is due at that instant and has a fresh identifier.
  When no offset is left nothing is registered and the call is the cancellation alone; no
  error is logged. For an expiry date ten days after now the offsets are 7, 3 and 1.
\<close>

theorem scheduleFirearmNotifications_offsets:
  assumes "isNativePlatform env" and "\<not> scheduleRejects env"
  shows "(let expiry = newDate env (expiryDate firearm);
             offs = filter (\<lambda>days. now env < expiry - int days * msPerDay)
                      [365, 180, 90, 60, 30, 14, 7, 3, 1];
             batch = firearmBatch firearm expiry (notificationCounter st) offs;
             cancelled = cancelFirearmNotifications env (firearm_id firearm) st
         in pending (scheduleFirearmNotifications env firearm st) =
              LocalNotifications_schedule batch (pending cancelled)
            \<and> map daysToExpiry batch = offs
            \<and> map schedule_at batch = map (\<lambda>days. expiry - int days * msPerDay) offs
            \<and> map notification_id batch =
                [notificationCounter st ..< notificationCounter st + length offs]
            \<and> list_all (isFirearmReminder (firearm_id firearm)) batch
            \<and> (offs = [] \<longrightarrow> scheduleFirearmNotifications env firearm st = cancelled)
            \<and> (offs = [] \<and> \<not> cancelRejects env \<and> \<not> setItemThrows env \<longrightarrow>
                 errors (scheduleFirearmNotifications env firearm st) = errors st)
            \<and> (expiry = now env + 10 * msPerDay \<longrightarrow> offs = [7, 3, 1]))"
proof -
  define expiry where "expiry = newDate env (expiryDate firearm)"
  define offs where "offs = applicable expiry (now env) intervals"
  define batch where "batch = firearmBatch firearm expiry (notificationCounter st) offs"
  define cancelled where "cancelled = cancelFirearmNotifications env (firearm_id firearm) st"
  have offs: "filter (\<lambda>days. now env < expiry - int days * msPerDay)
      [365, 180, 90, 60, 30, 14, 7, 3, 1] = offs"
    by (simp only: offs_def applicable_def intervals_def)
  have 1: "pending (scheduleFirearmNotifications env firearm st) =
      LocalNotifications_schedule batch (pending cancelled)"
    unfolding batch_def cancelled_def offs_def expiry_def by (rule schedule_pending [OF assms])
  have 2: "map daysToExpiry batch = offs"
    by (simp add: batch_def firearmBatch_days)
  have 3: "map schedule_at batch = map (\<lambda>days. expiry - int days * msPerDay) offs"
    by (simp add: batch_def firearmBatch_at)
  have 4: "map notification_id batch =
      [notificationCounter st ..< notificationCounter st + length offs]"
    by (simp add: batch_def firearmBatch_ids)
  have 5: "list_all (isFirearmReminder (firearm_id firearm)) batch"
    by (simp add: batch_def list_all_iff firearmBatch_owner)
  have 6: "offs = [] \<longrightarrow> scheduleFirearmNotifications env firearm st = cancelled"
    unfolding cancelled_def offs_def expiry_def using schedule_nothing [OF assms(1)] by blast
  have 7: "offs = [] \<and> \<not> cancelRejects env \<and> \<not> setItemThrows env \<longrightarrow>
      errors (scheduleFirearmNotifications env firearm st) = errors st"
    using 6 by (auto simp: cancelled_def cancel_errors)
  have 8: "expiry = now env + 10 * msPerDay \<longrightarrow> offs = [7, 3, 1]"
    by (simp add: offs_def applicable_ten_days)
  show ?thesis
    unfolding Let_def expiry_def [symmetric] offs batch_def [symmetric] cancelled_def [symmetric]
    using 1 2 3 4 5 6 7 8 by blast
qed

lemma example_env:
  "isNativePlatform exampleEnv" "\<not> scheduleRejects exampleEnv" "\<not> cancelRejects exampleEnv"
  "\<not> setItemThrows exampleEnv"
  by (simp_all add: exampleEnv_def)

lemma cancel_initialState:
  "cancelFirearmNotifications exampleEnv x initialState = initialState"
  by (simp add: cancelFirearmNotifications_def loadSchedule_def initialState_def)

theorem scheduleFirearmNotifications_offsets_witness:
  "isNativePlatform exampleEnv \<and> \<not> scheduleRejects exampleEnv
   \<and> newDate exampleEnv (expiryDate exampleFirearm) = now exampleEnv + 10 * msPerDay
   \<and> map daysToExpiry (pending (scheduleFirearmNotifications exampleEnv exampleFirearm initialState))
       = [7, 3, 1]
   \<and> map notification_id (pending (scheduleFirearmNotifications exampleEnv exampleFirearm initialState))
       = [1000, 1001, 1002]
   \<and> filter (\<lambda>days. now exampleEnv < newDate exampleEnv (expiryDate expiredFirearm) - int days * msPerDay)
         [365, 180, 90, 60, 30, 14, 7, 3, 1] = []
   \<and> \<not> cancelRejects exampleEnv \<and> \<not> setItemThrows exampleEnv
   \<and> scheduleFirearmNotifications exampleEnv expiredFirearm initialState = initialState
   \<and> errors (scheduleFirearmNotifications exampleEnv expiredFirearm initialState) = []"
proof -
  have ten: "newDate exampleEnv (expiryDate exampleFirearm) = now exampleEnv + 10 * msPerDay"
    by code_simp
  have none: "filter (\<lambda>days. now exampleEnv < newDate exampleEnv (expiryDate expiredFirearm) - int days * msPerDay)
         [365, 180, 90, 60, 30, 14, 7, 3, 1] = []"
    by code_simp
  have counter: "notificationCounter initialState = 1000" and pend: "pending initialState = []"
    and errs: "errors initialState = []"
    by (simp_all add: initialState_def)
  note T = scheduleFirearmNotifications_offsets [OF example_env(1,2), of exampleFirearm initialState,
      unfolded Let_def cancel_initialState]
  from T ten have offs: "filter (\<lambda>days. now exampleEnv
        < newDate exampleEnv (expiryDate exampleFirearm) - int days * msPerDay)
      [365, 180, 90, 60, 30, 14, 7, 3, 1] = [7, 3, 1]"
    by blast
  from T have days: "map daysToExpiry (pending (scheduleFirearmNotifications exampleEnv exampleFirearm initialState))
       = [7, 3, 1]"
    unfolding offs pend by (simp add: LocalNotifications_schedule_def)
  from T have ids: "map notification_id (pending (scheduleFirearmNotifications exampleEnv exampleFirearm initialState))
       = [1000, 1001, 1002]"
    unfolding offs pend counter by (simp add: LocalNotifications_schedule_def upt_rec)
  note E = scheduleFirearmNotifications_offsets [OF example_env(1,2), of expiredFirearm initialState,
      unfolded Let_def cancel_initialState none]
  from E have same: "scheduleFirearmNotifications exampleEnv expiredFirearm initialState = initialState"
    by blast
  from E example_env(3,4) have "errors (scheduleFirearmNotifications exampleEnv expiredFirearm initialState) = errors initialState"
    by blast
  with errs have noerr: "errors (scheduleFirearmNotifications exampleEnv expiredFirearm initialState) = []"
    by simp
  show ?thesis
    using example_env ten days ids none same noerr by (intro conjI)
qed

subsection \<open>Rescheduling\<close>

lemma find_update_first:
  "0 \<le> findIndex P xs \<Longrightarrow> P y \<Longrightarrow> find P (xs[nat (findIndex P xs) := y]) = Some y"
proof (induction xs)
  case Nil
  then show ?case by simp
next
  case (Cons x xs)
  show ?case
  proof (cases "P x")
    case True
    with Cons.prems show ?thesis by simp
  next
    case False
    with Cons.prems have nn: "0 \<le> findIndex P xs"
      by (simp add: Let_def split: if_splits)
    then have "nat (findIndex P xs + 1) = Suc (nat (findIndex P xs))"
      by simp
    with False nn Cons.IH [OF nn Cons.prems(2)] show ?thesis
      by (simp add: Let_def)
  qed
qed

lemma find_append_new:
  "findIndex P xs < 0 \<Longrightarrow> P y \<Longrightarrow> find P (xs @ [y]) = Some y"
proof (induction xs)
  case Nil
  then show ?case by simp
next
  case (Cons x xs)
  then show ?case
    by (cases "P x") (simp_all add: Let_def split: if_splits)
qed

lemma firearmReminders_none_iff:
  "firearmReminders x st = [] \<longleftrightarrow> (\<forall>n \<in> set (pending st). \<not> isFirearmReminder x n)"
  by (simp add: firearmReminders_def filter_empty_conv)

lemma tracked_iff:
  "tracked x st \<longleftrightarrow>
     (\<forall>n \<in> set (pending st). isFirearmReminder x n \<longrightarrow>
        (\<exists>s. find (\<lambda>s. firearmId s = x) (loadSchedule st) = Some s
             \<and> notification_id n \<in> set (notificationIds s)))"
  by (auto simp: tracked_def list_all_iff split: option.splits)

lemma tracked_no_reminders: "firearmReminders x st = [] \<Longrightarrow> tracked x st"
  by (simp add: firearmReminders_none_iff tracked_iff)

lemma cancel_clears:
  assumes "isNativePlatform env" "\<not> cancelRejects env" "tracked x st"
  shows "firearmReminders x (cancelFirearmNotifications env x st) = []"
proof (cases "find (\<lambda>s. firearmId s = x) (loadSchedule st)")
  case None
  with assms(3) have "\<forall>n \<in> set (pending st). \<not> isFirearmReminder x n"
    by (simp add: tracked_iff)
  with None assms(1) show ?thesis
    by (simp add: cancelFirearmNotifications_def firearmReminders_none_iff)
next
  case (Some e)
  from assms(3) Some have ids: "\<forall>n \<in> set (pending st). isFirearmReminder x n \<longrightarrow>
      notification_id n \<in> set (notificationIds e)"
    by (simp add: tracked_iff)
  show ?thesis
  proof (cases "notificationIds e = []")
    case True
    with ids Some assms(1) show ?thesis
      by (simp add: cancelFirearmNotifications_def firearmReminders_none_iff)
  next
    case False
    with ids Some assms(1,2) show ?thesis
      by (auto simp: cancelFirearmNotifications_def firearmReminders_none_iff Let_def
          LocalNotifications_cancel_def saveSchedule_def logError_def)
  qed
qed

lemma schedule_reminders:
  assumes "isNativePlatform env" "\<not> cancelRejects env" "\<not> scheduleRejects env"
    and "tracked (firearm_id firearm) st"
  shows "firearmReminders (firearm_id firearm) (scheduleFirearmNotifications env firearm st) =
     firearmBatch firearm (newDate env (expiryDate firearm)) (notificationCounter st)
       (applicable (newDate env (expiryDate firearm)) (now env) intervals)"
proof -
  let ?x = "firearm_id firearm"
  let ?st1 = "cancelFirearmNotifications env ?x st"
  let ?batch = "firearmBatch firearm (newDate env (expiryDate firearm)) (notificationCounter st)
       (applicable (newDate env (expiryDate firearm)) (now env) intervals)"
  have none: "\<forall>n \<in> set (pending ?st1). \<not> isFirearmReminder ?x n"
    using cancel_clears [OF assms(1,2,4)] by (simp add: firearmReminders_none_iff)
  have old: "filter (isFirearmReminder ?x)
      (filter (\<lambda>n. notification_id n \<notin> set (map notification_id ?batch)) (pending ?st1)) = []"
    using none by (simp add: filter_empty_conv)
  have new: "filter (isFirearmReminder ?x) ?batch = ?batch"
    by (simp add: firearmBatch_owner)
  have "pending (scheduleFirearmNotifications env firearm st) =
      LocalNotifications_schedule ?batch (pending ?st1)"
    by (rule schedule_pending [OF assms(1,3)])
  then show ?thesis
    unfolding firearmReminders_def LocalNotifications_schedule_def
    using old new by (simp only: filter_append append_Nil)
qed

lemma schedule_tracked:
  assumes "isNativePlatform env" "\<not> cancelRejects env" "\<not> scheduleRejects env"
    and "\<not> setItemThrows env" and "tracked (firearm_id firearm) st"
  shows "tracked (firearm_id firearm) (scheduleFirearmNotifications env firearm st)"
proof -
  let ?x = "firearm_id firearm"
  let ?st1 = "cancelFirearmNotifications env ?x st"
  let ?expiry = "newDate env (expiryDate firearm)"
  let ?offs = "applicable ?expiry (now env) intervals"
  let ?c = "notificationCounter st"
  let ?batch = "firearmBatch firearm ?expiry ?c ?offs"
  let ?new = "\<lparr>firearmId = ?x, firearmTitle = firearm_title firearm,
               schedule_expiryDate = expiryDate firearm,
               notificationIds = [?c ..< ?c + length ?offs]\<rparr>"
  let ?result = "scheduleFirearmNotifications env firearm st"
  let ?P = "\<lambda>s. firearmId s = ?x"
  have rem: "firearmReminders ?x ?result = ?batch"
    by (rule schedule_reminders [OF assms(1,2,3,5)])
  show ?thesis
  proof (cases "?offs = []")
    case True
    with rem show ?thesis by (simp add: tracked_no_reminders)
  next
    case False
    have Pnew: "?P ?new" by simp
    have found: "find ?P (loadSchedule ?result) = Some ?new"
    proof (cases "0 \<le> findIndex ?P (loadSchedule ?st1)")
      case True
      with False assms(1,3,4) find_update_first [of ?P "loadSchedule ?st1" ?new, OF True Pnew]
      show ?thesis
        by (simp add: scheduleFirearmNotifications_unfold saveSchedule_def loadSchedule_def)
    next
      case neg: False
      then have "findIndex ?P (loadSchedule ?st1) < 0" by simp
      from find_append_new [of ?P "loadSchedule ?st1" ?new, OF this Pnew] neg False assms(1,3,4)
      show ?thesis
        by (simp add: scheduleFirearmNotifications_unfold saveSchedule_def loadSchedule_def)
    qed
    have "notification_id n \<in> set (notificationIds ?new)"
      if "n \<in> set (pending ?result)" "isFirearmReminder ?x n" for n
    proof -
      from that have "n \<in> set (firearmReminders ?x ?result)"
        by (simp add: firearmReminders_def)
      then have "n \<in> set ?batch" by (simp only: rem)
      then have "notification_id n \<in> set (map notification_id ?batch)" by simp
      then show ?thesis by (simp add: firearmBatch_ids)
    qed
    with found show ?thesis
      unfolding tracked_iff by blast
  qed
qed

lemma tracked_initialState: "tracked x initialState"
  by (simp add: tracked_def initialState_def)

text \<open>
  C7. Scheduling the same record twice. On a native platform, with the plugin accepting
  the calls and the first schedule saved, and from a state in which the record's
  reminders are tracked (as they are in the initial state and after every such call):
  the second call first cancels every reminder the record has registered, and after it the
  record has exactly one registered reminder for each offset applicable at the second
  call, under distinct identifiers; their number is that of the applicable offsets, at
  most nine.
\<close>

theorem schedule_twice_no_duplicates:
  assumes "isNativePlatform env1" "\<not> cancelRejects env1" "\<not> scheduleRejects env1"
    and "\<not> setItemThrows env1"
    and "isNativePlatform env2" "\<not> cancelRejects env2" "\<not> scheduleRejects env2"
    and "tracked (firearm_id firearm) st"
  shows "(let once = scheduleFirearmNotifications env1 firearm st;
             twice = scheduleFirearmNotifications env2 firearm once;
             offs = filter (\<lambda>days. now env2 < newDate env2 (expiryDate firearm) - int days * msPerDay)
                      [365, 180, 90, 60, 30, 14, 7, 3, 1]
         in firearmReminders (firearm_id firearm)
              (cancelFirearmNotifications env2 (firearm_id firearm) once) = []
            \<and> map daysToExpiry (firearmReminders (firearm_id firearm) twice) = offs
            \<and> distinct (map notification_id (firearmReminders (firearm_id firearm) twice))
            \<and> length (firearmReminders (firearm_id firearm) twice) = length offs
            \<and> length (firearmReminders (firearm_id firearm) twice) \<le> 9)"
proof -
  let ?x = "firearm_id firearm"
  define once where "once = scheduleFirearmNotifications env1 firearm st"
  define twice where "twice = scheduleFirearmNotifications env2 firearm once"
  define offs where "offs = applicable (newDate env2 (expiryDate firearm)) (now env2) intervals"
  have offs: "filter (\<lambda>days. now env2 < newDate env2 (expiryDate firearm) - int days * msPerDay)
      [365, 180, 90, 60, 30, 14, 7, 3, 1] = offs"
    by (simp only: offs_def applicable_def intervals_def)
  have tr: "tracked ?x once"
    unfolding once_def by (rule schedule_tracked [OF assms(1-4,8)])
  have 1: "firearmReminders ?x (cancelFirearmNotifications env2 ?x once) = []"
    by (rule cancel_clears [OF assms(5,6) tr])
  have rem: "firearmReminders ?x twice =
      firearmBatch firearm (newDate env2 (expiryDate firearm)) (notificationCounter once) offs"
    unfolding twice_def offs_def by (rule schedule_reminders [OF assms(5-7) tr])
  have 2: "map daysToExpiry (firearmReminders ?x twice) = offs"
    by (simp add: rem firearmBatch_days)
  have 3: "distinct (map notification_id (firearmReminders ?x twice))"
    by (simp add: rem firearmBatch_ids)
  have 4: "length (firearmReminders ?x twice) = length offs"
    by (simp add: rem)
  have "length offs \<le> length intervals"
    unfolding offs_def applicable_def by (rule length_filter_le)
  then have 5: "length (firearmReminders ?x twice) \<le> 9"
    by (simp add: 4 intervals_def)
  show ?thesis
    unfolding Let_def once_def [symmetric] twice_def [symmetric] offs
    using 1 2 3 4 5 by blast
qed

theorem schedule_twice_no_duplicates_witness:
  "isNativePlatform exampleEnv \<and> \<not> cancelRejects exampleEnv \<and> \<not> scheduleRejects exampleEnv
   \<and> \<not> setItemThrows exampleEnv \<and> tracked (firearm_id exampleFirearm) initialState
   \<and> map daysToExpiry (firearmReminders (firearm_id exampleFirearm)
         (scheduleFirearmNotifications exampleEnv exampleFirearm initialState)) = [7, 3, 1]
   \<and> map daysToExpiry (firearmReminders (firearm_id exampleFirearm)
         (scheduleFirearmNotifications exampleEnv exampleFirearm
            (scheduleFirearmNotifications exampleEnv exampleFirearm initialState))) = [7, 3, 1]
   \<and> length (firearmReminders (firearm_id exampleFirearm)
         (scheduleFirearmNotifications exampleEnv exampleFirearm
            (scheduleFirearmNotifications exampleEnv exampleFirearm initialState))) = 3
   \<and> distinct (map notification_id (firearmReminders (firearm_id exampleFirearm)
         (scheduleFirearmNotifications exampleEnv exampleFirearm
            (scheduleFirearmNotifications exampleEnv exampleFirearm initialState))))"
proof -
  have offs: "filter (\<lambda>days. now exampleEnv
        < newDate exampleEnv (expiryDate exampleFirearm) - int days * msPerDay)
      [365, 180, 90, 60, 30, 14, 7, 3, 1] = [7, 3, 1]"
    by code_simp
  have first: "map daysToExpiry (firearmReminders (firearm_id exampleFirearm)
         (scheduleFirearmNotifications exampleEnv exampleFirearm initialState)) = [7, 3, 1]"
    by code_simp
  note T = schedule_twice_no_duplicates [OF example_env(1,3,2,4) example_env(1,3,2)
      tracked_initialState, of exampleFirearm, unfolded Let_def offs]
  from T have second: "map daysToExpiry (firearmReminders (firearm_id exampleFirearm)
         (scheduleFirearmNotifications exampleEnv exampleFirearm
            (scheduleFirearmNotifications exampleEnv exampleFirearm initialState))) = [7, 3, 1]"
    by blast
  from T have len: "length (firearmReminders (firearm_id exampleFirearm)
         (scheduleFirearmNotifications exampleEnv exampleFirearm
            (scheduleFirearmNotifications exampleEnv exampleFirearm initialState))) = 3"
    by simp
  from T have dist: "distinct (map notification_id (firearmReminders (firearm_id exampleFirearm)
         (scheduleFirearmNotifications exampleEnv exampleFirearm
            (scheduleFirearmNotifications exampleEnv exampleFirearm initialState))))"
    by blast
  show ?thesis
    using example_env tracked_initialState first second len dist by (intro conjI)
qed

subsection \<open>Deleting a firearm record\<close>

lemma cancel_other_entries:
  assumes "y \<noteq> x"
  shows "filter (\<lambda>s. firearmId s = y) (loadSchedule (cancelFirearmNotifications env x st)) =
         filter (\<lambda>s. firearmId s = y) (loadSchedule st)"
proof -
  have keep: "filter (\<lambda>s. firearmId s \<noteq> x \<and> firearmId s = y) xs =
      filter (\<lambda>s. firearmId s = y) xs" for xs :: "NotificationSchedule list"
    using assms by (induction xs) auto
  show ?thesis
    by (simp add: cancelFirearmNotifications_def saveSchedule_def logError_def Let_def
        loadSchedule_def keep split: option.splits)
qed

lemma cancel_no_entry:
  assumes "find (\<lambda>s. firearmId s = x) (loadSchedule st) = None"
  shows "cancelFirearmNotifications env x st = st"
  using assms by (simp add: cancelFirearmNotifications_def)

lemma cancel_entry:
  assumes "isNativePlatform env" "\<not> cancelRejects env" "\<not> setItemThrows env"
    and "find (\<lambda>s. firearmId s = x) (loadSchedule st) = Some e" "notificationIds e \<noteq> []"
  shows "cancelFirearmNotifications env x st =
     st\<lparr>pending := LocalNotifications_cancel (notificationIds e) (pending st),
        firearm_notification_schedule := Some (filter (\<lambda>s. firearmId s \<noteq> x) (loadSchedule st))\<rparr>"
  using assms by (simp add: cancelFirearmNotifications_def saveSchedule_def Let_def)

lemma cancel_keeps_others:
  assumes "\<forall>n \<in> set registered. notification_id n \<in> set ids \<longrightarrow> P n"
  shows "filter (\<lambda>n. \<not> P n) (LocalNotifications_cancel ids registered) =
         filter (\<lambda>n. \<not> P n) registered"
  using assms unfolding LocalNotifications_cancel_def
  by (induction registered) auto

lemma other_firearm_reminder:
  "y \<noteq> x \<Longrightarrow> isFirearmReminder y n \<Longrightarrow> \<not> isFirearmReminder x n"
  by (auto simp: isFirearmReminder_def split: NotificationExtra.splits)

lemma firearmReminders_others:
  assumes "filter (\<lambda>n. \<not> isFirearmReminder x n) ps = filter (\<lambda>n. \<not> isFirearmReminder x n) qs"
    and "y \<noteq> x"
  shows "filter (isFirearmReminder y) ps = filter (isFirearmReminder y) qs"
proof -
  have "filter (isFirearmReminder y) zs =
      filter (isFirearmReminder y) (filter (\<lambda>n. \<not> isFirearmReminder x n) zs)" for zs
    using other_firearm_reminder [OF assms(2)] by (induction zs) auto
  with assms(1) show ?thesis by metis
qed

lemma confirmFirearmDelete_eq:
  assumes "\<not> setItemThrows env"
  shows "\<exists>records. confirmFirearmDelete env x st =
            cancelFirearmNotifications env x (st\<lparr>firearm_records := records\<rparr>)
          \<and> (case records of None \<Rightarrow> [] | Some stored \<Rightarrow> stored) =
              filter (\<lambda>firearm. firearm_id firearm \<noteq> x) (loadFirearms st)"
proof (cases "length (filter (\<lambda>firearm. firearm_id firearm \<noteq> x) (loadFirearms st)) = length (loadFirearms st)")
  case True
  then have same: "filter (\<lambda>firearm. firearm_id firearm \<noteq> x) (loadFirearms st) = loadFirearms st"
    by (metis filter_True length_filter_less less_irrefl_nat)
  have "confirmFirearmDelete env x st = cancelFirearmNotifications env x (st\<lparr>firearm_records := firearm_records st\<rparr>)"
    using True by (simp add: confirmFirearmDelete_def deleteFirearm_def Let_def)
  moreover have "(case firearm_records st of None \<Rightarrow> [] | Some stored \<Rightarrow> stored) =
      filter (\<lambda>firearm. firearm_id firearm \<noteq> x) (loadFirearms st)"
    using same by (simp add: loadFirearms_def)
  ultimately show ?thesis by blast
next
  case False
  with assms have "confirmFirearmDelete env x st =
      cancelFirearmNotifications env x
        (st\<lparr>firearm_records := Some (filter (\<lambda>firearm. firearm_id firearm \<noteq> x) (loadFirearms st))\<rparr>)"
    by (simp add: confirmFirearmDelete_def deleteFirearm_def Let_def)
  then show ?thesis by force
qed

lemma cancel_firearm_records:
  "firearm_records (cancelFirearmNotifications env x st) = firearm_records st"
  by (simp add: cancelFirearmNotifications_def saveSchedule_def logError_def Let_def
      split: option.splits)

lemma confirmFirearmDelete_parts:
  assumes "\<not> setItemThrows env"
  shows "loadFirearms (confirmFirearmDelete env x st) =
           filter (\<lambda>firearm. firearm_id firearm \<noteq> x) (loadFirearms st)"
    and "pending (confirmFirearmDelete env x st) = pending (cancelFirearmNotifications env x st)"
    and "loadSchedule (confirmFirearmDelete env x st) = loadSchedule (cancelFirearmNotifications env x st)"
proof -
  from confirmFirearmDelete_eq [OF assms, of x st] obtain records where
    eq: "confirmFirearmDelete env x st = cancelFirearmNotifications env x (st\<lparr>firearm_records := records\<rparr>)"
    and recs: "(case records of None \<Rightarrow> [] | Some stored \<Rightarrow> stored) =
              filter (\<lambda>firearm. firearm_id firearm \<noteq> x) (loadFirearms st)"
    by blast
  show "loadFirearms (confirmFirearmDelete env x st) =
           filter (\<lambda>firearm. firearm_id firearm \<noteq> x) (loadFirearms st)"
    using recs by (simp add: eq loadFirearms_def cancel_firearm_records)
  show "pending (confirmFirearmDelete env x st) = pending (cancelFirearmNotifications env x st)"
    unfolding eq
    by (simp add: cancelFirearmNotifications_def saveSchedule_def logError_def Let_def
        loadSchedule_def split: option.splits)
  show "loadSchedule (confirmFirearmDelete env x st) = loadSchedule (cancelFirearmNotifications env x st)"
    unfolding eq
    by (simp add: cancelFirearmNotifications_def saveSchedule_def logError_def Let_def
        loadSchedule_def split: option.splits)
qed

text \<open>
  C8. Deleting a firearm record can cancel the reminders of another record. A start of
  the application sets the counter back to 1000 while the storage and the plugin keep
  what they hold. After the first firearm is scheduled, the application is started anew
  and the second firearm is scheduled, the two schedule entries list the same identifiers
  1000, 1001 and 1002, under which the plugin now holds the reminders of the second
  firearm. Deleting the first firearm cancels these: the second firearm, a record with
  another identifier, loses its three reminders.
\<close>

theorem delete_after_restart_cancels_other_record:
  "firearm_id otherFirearm \<noteq> firearm_id exampleFirearm
   \<and> map notification_id (firearmReminders (firearm_id otherFirearm) restartedState) =
       [1000, 1001, 1002]
   \<and> firearmReminders (firearm_id otherFirearm)
         (cancelFirearmNotifications exampleEnv (firearm_id exampleFirearm) restartedState) = []
   \<and> firearmReminders (firearm_id otherFirearm)
         (confirmFirearmDelete exampleEnv (firearm_id exampleFirearm) restartedState) = []
   \<and> firearmReminders (firearm_id otherFirearm)
         (confirmFirearmDelete exampleEnv (firearm_id exampleFirearm) restartedState) \<noteq>
       firearmReminders (firearm_id otherFirearm) restartedState"
proof -
  have a: "firearm_id otherFirearm \<noteq> firearm_id exampleFirearm"
    by code_simp
  have b: "map notification_id (firearmReminders (firearm_id otherFirearm) restartedState) =
       [1000, 1001, 1002]"
    by code_simp
  have c: "firearmReminders (firearm_id otherFirearm)
         (cancelFirearmNotifications exampleEnv (firearm_id exampleFirearm) restartedState) = []"
    by code_simp
  have d: "firearmReminders (firearm_id otherFirearm)
         (confirmFirearmDelete exampleEnv (firearm_id exampleFirearm) restartedState) = []"
    by code_simp
  from b have "firearmReminders (firearm_id otherFirearm) restartedState \<noteq> []"
    by auto
  with d have e: "firearmReminders (firearm_id otherFirearm)
         (confirmFirearmDelete exampleEnv (firearm_id exampleFirearm) restartedState) \<noteq>
       firearmReminders (firearm_id otherFirearm) restartedState"
    by simp
  from a b c d e show ?thesis by (intro conjI)
qed

text \<open>
  While no two records share an identifier of a reminder, as within one run of the
  application, a deletion touches the deleted record only. On a native platform, with the
  plugin and the storage accepting the calls, deleting the firearm record \<open>x\<close> removes it
  from the stored records and leaves the schedule entries of every other record as they
  are. When \<open>x\<close> has no schedule entry, the schedule and the registered reminders do not
  change. When the entry of \<open>x\<close> lists at least one identifier (as every entry the scheduler
  writes does), the identifiers it lists are cancelled with the plugin, none of them stays
  registered, and the entries of \<open>x\<close> are removed from the schedule, and no other entry is.
  The reminders that are not reminders of \<open>x\<close>, among them those of every other record,
  stay registered unchanged provided none of them is registered under an identifier the
  entry of \<open>x\<close> lists.
\<close>

lemma delete_cancels_only_own:
  assumes "isNativePlatform env" "\<not> cancelRejects env" "\<not> setItemThrows env"
  shows "(let after = confirmFirearmDelete env x st in
      loadFirearms after = filter (\<lambda>firearm. firearm_id firearm \<noteq> x) (loadFirearms st)
      \<and> (\<forall>y. y \<noteq> x \<longrightarrow>
            filter (\<lambda>s. firearmId s = y) (loadSchedule after) =
            filter (\<lambda>s. firearmId s = y) (loadSchedule st))
      \<and> (find (\<lambda>s. firearmId s = x) (loadSchedule st) = None \<longrightarrow>
            pending after = pending st \<and> loadSchedule after = loadSchedule st)
      \<and> (\<forall>e. find (\<lambda>s. firearmId s = x) (loadSchedule st) = Some e \<and> notificationIds e \<noteq> [] \<longrightarrow>
            pending after = LocalNotifications_cancel (notificationIds e) (pending st)
            \<and> (\<forall>n \<in> set (pending after). notification_id n \<notin> set (notificationIds e))
            \<and> loadSchedule after = filter (\<lambda>s. firearmId s \<noteq> x) (loadSchedule st)
            \<and> ((\<forall>n \<in> set (pending st).
                   notification_id n \<in> set (notificationIds e) \<longrightarrow> isFirearmReminder x n) \<longrightarrow>
                 filter (\<lambda>n. \<not> isFirearmReminder x n) (pending after) =
                   filter (\<lambda>n. \<not> isFirearmReminder x n) (pending st)
                 \<and> (\<forall>y. y \<noteq> x \<longrightarrow> firearmReminders y after = firearmReminders y st))))"
proof -
  define after where "after = confirmFirearmDelete env x st"
  let ?c = "cancelFirearmNotifications env x st"
  note parts = confirmFirearmDelete_parts [OF assms(3), of x st, folded after_def]
  have 1: "loadFirearms after = filter (\<lambda>firearm. firearm_id firearm \<noteq> x) (loadFirearms st)"
    by (rule parts(1))
  have 2: "\<forall>y. y \<noteq> x \<longrightarrow>
            filter (\<lambda>s. firearmId s = y) (loadSchedule after) =
            filter (\<lambda>s. firearmId s = y) (loadSchedule st)"
    by (simp add: parts(3) cancel_other_entries)
  have 3: "find (\<lambda>s. firearmId s = x) (loadSchedule st) = None \<longrightarrow>
            pending after = pending st \<and> loadSchedule after = loadSchedule st"
    by (simp add: parts(2,3) cancel_no_entry)
  have 4: "pending after = LocalNotifications_cancel (notificationIds e) (pending st)
            \<and> (\<forall>n \<in> set (pending after). notification_id n \<notin> set (notificationIds e))
            \<and> loadSchedule after = filter (\<lambda>s. firearmId s \<noteq> x) (loadSchedule st)
            \<and> ((\<forall>n \<in> set (pending st).
                   notification_id n \<in> set (notificationIds e) \<longrightarrow> isFirearmReminder x n) \<longrightarrow>
                 filter (\<lambda>n. \<not> isFirearmReminder x n) (pending after) =
                   filter (\<lambda>n. \<not> isFirearmReminder x n) (pending st)
                 \<and> (\<forall>y. y \<noteq> x \<longrightarrow> firearmReminders y after = firearmReminders y st))"
    if e: "find (\<lambda>s. firearmId s = x) (loadSchedule st) = Some e \<and> notificationIds e \<noteq> []" for e
  proof -
    from e have found: "find (\<lambda>s. firearmId s = x) (loadSchedule st) = Some e"
      and ne: "notificationIds e \<noteq> []" by simp_all
    note c = cancel_entry [OF assms found ne]
    have p: "pending after = LocalNotifications_cancel (notificationIds e) (pending st)"
      by (simp add: parts(2) c)
    have gone: "\<forall>n \<in> set (pending after). notification_id n \<notin> set (notificationIds e)"
      by (simp add: p LocalNotifications_cancel_def)
    have "loadSchedule ?c = filter (\<lambda>s. firearmId s \<noteq> x) (loadSchedule st)"
      unfolding c by (simp add: loadSchedule_def)
    then have s: "loadSchedule after = filter (\<lambda>s. firearmId s \<noteq> x) (loadSchedule st)"
      by (simp only: parts(3))
    have frame: "filter (\<lambda>n. \<not> isFirearmReminder x n) (pending after) =
                   filter (\<lambda>n. \<not> isFirearmReminder x n) (pending st)
                 \<and> (\<forall>y. y \<noteq> x \<longrightarrow> firearmReminders y after = firearmReminders y st)"
      if own: "\<forall>n \<in> set (pending st).
                   notification_id n \<in> set (notificationIds e) \<longrightarrow> isFirearmReminder x n"
    proof -
      have f: "filter (\<lambda>n. \<not> isFirearmReminder x n) (pending after) =
                   filter (\<lambda>n. \<not> isFirearmReminder x n) (pending st)"
        unfolding p by (rule cancel_keeps_others [OF own])
      then have "\<forall>y. y \<noteq> x \<longrightarrow> firearmReminders y after = firearmReminders y st"
        unfolding firearmReminders_def using firearmReminders_others by blast
      with f show ?thesis by blast
    qed
    from p gone s frame show ?thesis by blast
  qed
  show ?thesis
    unfolding Let_def after_def [symmetric]
    using 1 2 3 4 by blast
qed

lemma example_env_ok:
  "isNativePlatform exampleEnv" "\<not> cancelRejects exampleEnv" "\<not> setItemThrows exampleEnv"
  by (simp_all add: exampleEnv_def)

lemma delete_cancels_only_own_witness:
  "isNativePlatform exampleEnv \<and> \<not> cancelRejects exampleEnv \<and> \<not> setItemThrows exampleEnv
   \<and> find (\<lambda>s. firearmId s = firearm_id exampleFirearm) (loadSchedule twoFirearmsState) =
       Some \<lparr>firearmId = firearm_id exampleFirearm, firearmTitle = ''Glock 19'',
             schedule_expiryDate = ''2024-05-27'', notificationIds = [1000, 1001, 1002]\<rparr>
   \<and> map notification_id (firearmReminders (firearm_id otherFirearm) twoFirearmsState) =
       [1003, 1004, 1005]
   \<and> firearmReminders (firearm_id otherFirearm)
         (confirmFirearmDelete exampleEnv (firearm_id exampleFirearm) twoFirearmsState) =
       firearmReminders (firearm_id otherFirearm) twoFirearmsState
   \<and> map notification_id
         (pending (confirmFirearmDelete exampleEnv (firearm_id exampleFirearm) twoFirearmsState)) =
       [1003, 1004, 1005]
   \<and> map firearmId
         (loadSchedule (confirmFirearmDelete exampleEnv (firearm_id exampleFirearm) twoFirearmsState)) =
       [firearm_id otherFirearm]
   \<and> map firearm_id
         (loadFirearms (confirmFirearmDelete exampleEnv (firearm_id exampleFirearm) twoFirearmsState)) =
       [firearm_id otherFirearm]"
proof -
  let ?x = "firearm_id exampleFirearm" and ?y = "firearm_id otherFirearm"
  let ?e = "\<lparr>firearmId = firearm_id exampleFirearm, firearmTitle = ''Glock 19'',
             schedule_expiryDate = ''2024-05-27'', notificationIds = [1000, 1001, 1002]\<rparr>"
  let ?after = "confirmFirearmDelete exampleEnv ?x twoFirearmsState"
  have found: "find (\<lambda>s. firearmId s = ?x) (loadSchedule twoFirearmsState) = Some ?e"
    by code_simp
  have ne: "notificationIds ?e \<noteq> []" by simp
  have own: "\<forall>n \<in> set (pending twoFirearmsState).
      notification_id n \<in> set (notificationIds ?e) \<longrightarrow> isFirearmReminder ?x n"
    by code_simp
  have other: "?y \<noteq> ?x" by code_simp
  have before: "map notification_id (firearmReminders ?y twoFirearmsState) = [1003, 1004, 1005]"
    by code_simp
  have ids: "map notification_id (LocalNotifications_cancel (notificationIds ?e) (pending twoFirearmsState)) =
      [1003, 1004, 1005]"
    by code_simp
  have entries: "map firearmId (filter (\<lambda>s. firearmId s \<noteq> ?x) (loadSchedule twoFirearmsState)) = [?y]"
    by code_simp
  have records: "map firearm_id (filter (\<lambda>firearm. firearm_id firearm \<noteq> ?x) (loadFirearms twoFirearmsState)) = [?y]"
    by code_simp
  note T = delete_cancels_only_own [OF example_env_ok, of ?x twoFirearmsState, unfolded Let_def]
  from T found ne own other have same: "firearmReminders ?y ?after = firearmReminders ?y twoFirearmsState"
    by blast
  from T found ne have "pending ?after = LocalNotifications_cancel (notificationIds ?e) (pending twoFirearmsState)"
    by blast
  with ids have p: "map notification_id (pending ?after) = [1003, 1004, 1005]"
    by (simp only:)
  from T found ne have "loadSchedule ?after = filter (\<lambda>s. firearmId s \<noteq> ?x) (loadSchedule twoFirearmsState)"
    by blast
  with entries have s: "map firearmId (loadSchedule ?after) = [?y]"
    by (simp only:)
  from T have "loadFirearms ?after = filter (\<lambda>firearm. firearm_id firearm \<noteq> ?x) (loadFirearms twoFirearmsState)"
    by blast
  with records have r: "map firearm_id (loadFirearms ?after) = [?y]"
    by (simp only:)
  show ?thesis
    using example_env_ok found before same p s r by (intro conjI)
qed

subsection \<open>Application reminders\<close>

lemma scheduleApplicationStep_eq:
  "scheduleApplicationStep env (ns, sch, st) app =
     (if 88 \<le> pendingDays env app
      then (ns @ [applicationNotification app (reminderInstant env (pendingDays env app))
                    (pendingDays env app) (notificationCounter st)],
            sch @ [\<lparr>applicationId = application_id app, applicationRef = applicationRefNumber app,
                    notificationId = notificationCounter st\<rparr>],
            st\<lparr>notificationCounter := notificationCounter st + 1\<rparr>)
      else (ns, sch, st))"
proof -
  have "(92 - int w) * 24 * 60 * 60 * 1000 = (90 + 2 - int w) * msPerDay" for w :: nat
    by (simp add: msPerDay_def)
  then show ?thesis
    by (simp add: scheduleApplicationStep_def getNextNotificationId_def pendingDays_def
        reminderInstant_def Let_def)
qed

lemma application_loop:
  "foldl (scheduleApplicationStep env) (ns, sch, st) applications =
     (ns @ applicationBatch env (notificationCounter st) (dueApplications env applications),
      sch @ applicationEntries (notificationCounter st) (dueApplications env applications),
      st\<lparr>notificationCounter := notificationCounter st + length (dueApplications env applications)\<rparr>)"
proof (induction applications arbitrary: ns sch st)
  case Nil
  show ?case by (simp add: dueApplications_def applicationBatch_def applicationEntries_def)
next
  case (Cons app applications)
  show ?case
  proof (cases "88 \<le> pendingDays env app")
    case False
    then show ?thesis
      by (simp add: scheduleApplicationStep_eq Cons.IH dueApplications_def)
  next
    case True
    let ?c = "notificationCounter st"
    let ?due = "dueApplications env applications"
    have due: "dueApplications env (app # applications) = app # ?due"
      using True by (simp add: dueApplications_def)
    have upt: "[?c ..< ?c + length (app # ?due)] = ?c # [Suc ?c ..< Suc ?c + length ?due]"
      using upt_conv_Cons [of ?c "?c + length (app # ?due)"] by simp
    have batch: "applicationBatch env ?c (app # ?due) =
        applicationNotification app (reminderInstant env (pendingDays env app)) (pendingDays env app) ?c
          # applicationBatch env (Suc ?c) ?due"
      unfolding applicationBatch_def upt by simp
    have entries: "applicationEntries ?c (app # ?due) =
        \<lparr>applicationId = application_id app, applicationRef = applicationRefNumber app,
         notificationId = ?c\<rparr> # applicationEntries (Suc ?c) ?due"
      unfolding applicationEntries_def upt by simp
    show ?thesis
      using True
      by (simp add: scheduleApplicationStep_eq Cons.IH due batch entries)
  qed
qed

lemma applicationBatch_length [simp]: "length (applicationBatch env c due) = length due"
  by (simp add: applicationBatch_def)

lemma applicationBatch_Nil [simp]: "applicationBatch env c [] = []"
  by (simp add: applicationBatch_def)

lemma applicationEntries_Nil [simp]: "applicationEntries c [] = []"
  by (simp add: applicationEntries_def)

lemma applicationBatch_empty [simp]: "(applicationBatch env c due = []) = (due = [])"
  by (metis applicationBatch_length length_0_conv)

lemma LocalNotifications_cancel_Nil [simp]: "LocalNotifications_cancel [] registered = registered"
  by (simp add: LocalNotifications_cancel_def)

lemma cancelAll_eq:
  assumes "isNativePlatform env" "\<not> cancelRejects env" "\<not> setItemThrows env"
  shows "cancelAllApplicationNotifications env st =
     st\<lparr>pending := LocalNotifications_cancel (map notificationId (loadApplicationSchedule st)) (pending st),
        application_notification_schedule := Some []\<rparr>"
proof (cases "loadApplicationSchedule st = []")
  case True
  have "st\<lparr>pending := pending st, application_notification_schedule := Some []\<rparr> =
      st\<lparr>application_notification_schedule := Some []\<rparr>"
    by simp
  with True assms show ?thesis
    by (simp add: cancelAllApplicationNotifications_def saveApplicationSchedule_def Let_def)
next
  case False
  with assms show ?thesis
    by (simp add: cancelAllApplicationNotifications_def saveApplicationSchedule_def Let_def)
qed

lemma scheduleApplicationNotifications_eq:
  assumes "isNativePlatform env" "\<not> cancelRejects env" "\<not> scheduleRejects env"
    and "\<not> setItemThrows env"
  shows "scheduleApplicationNotifications env applications st =
     st\<lparr>notificationCounter := notificationCounter st + length (dueApplications env applications),
        pending := LocalNotifications_schedule
                     (applicationBatch env (notificationCounter st) (dueApplications env applications))
                     (LocalNotifications_cancel (map notificationId (loadApplicationSchedule st))
                        (pending st)),
        application_notification_schedule :=
          Some (applicationEntries (notificationCounter st) (dueApplications env applications))\<rparr>"
proof (cases "dueApplications env applications = []")
  case True
  with assms show ?thesis
    by (simp add: scheduleApplicationNotifications_def Let_def application_loop
        cancelAll_eq [OF assms(1,2,4)])
next
  case False
  with assms show ?thesis
    by (simp add: scheduleApplicationNotifications_def Let_def application_loop
        cancelAll_eq [OF assms(1,2,4)] saveApplicationSchedule_def)
qed

text \<open>From 11 January to 17 May 2024 there are 88 working days, and 5 from 13 May.\<close>

lemma example_working_days_88:
  "calculateWorkingDays (newDate exampleEnv ''2024-01-11'') (now exampleEnv) = 88"
  by code_simp

lemma example_working_days_5:
  "calculateWorkingDays (newDate exampleEnv ''2024-05-13'') (now exampleEnv) = 5"
  by code_simp

lemma applicationBatch_ids:
  "map notification_id (applicationBatch env c due) = [c ..< c + length due]"
proof -
  have "notification_id \<circ> (\<lambda>(app, ident).
      applicationNotification app (reminderInstant env (pendingDays env app))
        (pendingDays env app) ident) = snd"
    by (auto simp: fun_eq_iff applicationNotification_def Let_def)
  then show ?thesis by (simp add: applicationBatch_def)
qed

lemma applicationBatch_at:
  "map schedule_at (applicationBatch env c due) =
     map (\<lambda>app. reminderInstant env (pendingDays env app)) due"
proof -
  have "schedule_at \<circ> (\<lambda>(app, ident).
      applicationNotification app (reminderInstant env (pendingDays env app))
        (pendingDays env app) ident) = (\<lambda>app. reminderInstant env (pendingDays env app)) \<circ> fst"
    by (auto simp: fun_eq_iff applicationNotification_def Let_def)
  then have "map schedule_at (applicationBatch env c due) =
      map ((\<lambda>app. reminderInstant env (pendingDays env app)) \<circ> fst) (zip due [c ..< c + length due])"
    by (simp add: applicationBatch_def)
  also have "\<dots> = map (\<lambda>app. reminderInstant env (pendingDays env app))
      (map fst (zip due [c ..< c + length due]))"
    by (simp only: map_map)
  finally show ?thesis by simp
qed

lemma applicationBatch_extra:
  "map extra (applicationBatch env c due) =
     map (\<lambda>app. ApplicationExtra (application_id app) (pendingDays env app)) due"
proof -
  have "extra \<circ> (\<lambda>(app, ident).
      applicationNotification app (reminderInstant env (pendingDays env app))
        (pendingDays env app) ident) =
      (\<lambda>app. ApplicationExtra (application_id app) (pendingDays env app)) \<circ> fst"
    by (auto simp: fun_eq_iff applicationNotification_def Let_def)
  then have "map extra (applicationBatch env c due) =
      map ((\<lambda>app. ApplicationExtra (application_id app) (pendingDays env app)) \<circ> fst)
        (zip due [c ..< c + length due])"
    by (simp add: applicationBatch_def)
  also have "\<dots> = map (\<lambda>app. ApplicationExtra (application_id app) (pendingDays env app))
      (map fst (zip due [c ..< c + length due]))"
    by (simp only: map_map)
  finally show ?thesis by simp
qed

lemma applicationEntries_ids:
  "map notificationId (applicationEntries c due) = [c ..< c + length due]"
proof -
  have "map notificationId (applicationEntries c due) = map snd (zip due [c ..< c + length due])"
    by (simp add: applicationEntries_def case_prod_unfold comp_def)
  then show ?thesis by simp
qed

lemma applicationEntries_apps:
  "map applicationId (applicationEntries c due) = map application_id due"
proof -
  have "map applicationId (applicationEntries c due) =
      map (application_id \<circ> fst) (zip due [c ..< c + length due])"
    by (simp add: applicationEntries_def case_prod_unfold comp_def)
  also have "\<dots> = map application_id (map fst (zip due [c ..< c + length due]))"
    by (simp only: map_map)
  also have "\<dots> = map application_id due"
    by simp
  finally show ?thesis .
qed

text \<open>
  C9. On a native platform, with the plugin and the storage accepting the calls,
  \<open>scheduleApplicationNotifications\<close> replaces the application reminders: it cancels every
  reminder identifier of the application schedule and registers one reminder, under a
  fresh identifier, exactly for each application of the list whose working days pending
  (from the date applied to now) are at least 88, and the application schedule becomes the
  list of these reminders and nothing else. The reminder is due one minute from now when
  the working days pending are already at least 90, and otherwise at now plus (90 + 2 less
  the working days pending) calendar days.
\<close>

theorem scheduleApplicationNotifications_replaces:
  assumes "isNativePlatform env" "\<not> cancelRejects env" "\<not> scheduleRejects env"
    and "\<not> setItemThrows env"
  shows "(let after = scheduleApplicationNotifications env applications st;
             old = map notificationId (loadApplicationSchedule st);
             due = filter (\<lambda>app. 88 \<le> pendingDays env app) applications;
             c = notificationCounter st;
             batch = applicationBatch env c due
         in pendingDays env app = calculateWorkingDays (newDate env (dateApplied app)) (now env)
            \<and> pending after =
                LocalNotifications_schedule batch (LocalNotifications_cancel old (pending st))
            \<and> loadApplicationSchedule after = applicationEntries c due
            \<and> map applicationId (loadApplicationSchedule after) = map application_id due
            \<and> map notificationId (loadApplicationSchedule after) = map notification_id batch
            \<and> map notification_id batch = [c ..< c + length due]
            \<and> map extra batch =
                map (\<lambda>app. ApplicationExtra (application_id app) (pendingDays env app)) due
            \<and> map schedule_at batch =
                map (\<lambda>app. if 90 \<le> pendingDays env app then now env + 60000
                            else now env + (90 + 2 - int (pendingDays env app)) * msPerDay) due)"
proof -
  define due where "due = dueApplications env applications"
  define c where "c = notificationCounter st"
  define batch where "batch = applicationBatch env c due"
  define after where "after = scheduleApplicationNotifications env applications st"
  have due: "filter (\<lambda>app. 88 \<le> pendingDays env app) applications = due"
    by (simp only: due_def dueApplications_def)
  note eq = scheduleApplicationNotifications_eq [OF assms, of applications st,
      folded due_def c_def after_def, folded batch_def]
  have 0: "pendingDays env app = calculateWorkingDays (newDate env (dateApplied app)) (now env)"
    by (simp only: pendingDays_def)
  have 1: "pending after = LocalNotifications_schedule batch
      (LocalNotifications_cancel (map notificationId (loadApplicationSchedule st)) (pending st))"
    by (simp add: eq)
  have 2: "loadApplicationSchedule after = applicationEntries c due"
    by (simp add: eq loadApplicationSchedule_def)
  have 3: "map applicationId (loadApplicationSchedule after) = map application_id due"
    by (simp add: 2 applicationEntries_apps)
  have 5: "map notification_id batch = [c ..< c + length due]"
    by (simp add: batch_def applicationBatch_ids)
  have 4: "map notificationId (loadApplicationSchedule after) = map notification_id batch"
    by (simp add: 2 5 applicationEntries_ids)
  have 6: "map extra batch =
      map (\<lambda>app. ApplicationExtra (application_id app) (pendingDays env app)) due"
    by (simp add: batch_def applicationBatch_extra)
  have 7: "map schedule_at batch =
      map (\<lambda>app. if 90 \<le> pendingDays env app then now env + 60000
                  else now env + (90 + 2 - int (pendingDays env app)) * msPerDay) due"
    by (simp add: batch_def applicationBatch_at reminderInstant_def)
  show ?thesis
    unfolding Let_def due c_def [symmetric] batch_def [symmetric] after_def [symmetric]
    using 0 1 2 3 4 5 6 7 by blast
qed

lemma example_pending_days:
  "pendingDays exampleEnv (exampleApplications ! 0) = 95"
  "pendingDays exampleEnv (exampleApplications ! 1) = 5"
  "pendingDays exampleEnv (exampleApplications ! 2) = 88"
  by (simp_all add: pendingDays_def exampleApplications_def exampleApplication_def
      example_working_days example_working_days_5 example_working_days_88)

lemma example_due:
  "filter (\<lambda>app. 88 \<le> pendingDays exampleEnv app) exampleApplications =
     [exampleApplications ! 0, exampleApplications ! 2]"
proof -
  have "exampleApplications =
      [exampleApplications ! 0, exampleApplications ! 1, exampleApplications ! 2]"
    by (simp add: exampleApplications_def)
  then have "filter (\<lambda>app. 88 \<le> pendingDays exampleEnv app) exampleApplications =
      filter (\<lambda>app. 88 \<le> pendingDays exampleEnv app)
        [exampleApplications ! 0, exampleApplications ! 1, exampleApplications ! 2]"
    by simp
  also have "\<dots> = [exampleApplications ! 0, exampleApplications ! 2]"
    by (simp add: example_pending_days [unfolded One_nat_def])
  finally show ?thesis .
qed

theorem scheduleApplicationNotifications_replaces_witness:
  "isNativePlatform exampleEnv \<and> \<not> cancelRejects exampleEnv \<and> \<not> scheduleRejects exampleEnv
   \<and> \<not> setItemThrows exampleEnv
   \<and> pendingDays exampleEnv (exampleApplications ! 0) = 95
   \<and> pendingDays exampleEnv (exampleApplications ! 1) = 5
   \<and> pendingDays exampleEnv (exampleApplications ! 2) = 88
   \<and> map notification_id (pending exampleState) = [1000]
   \<and> map notification_id
         (pending (scheduleApplicationNotifications exampleEnv exampleApplications exampleState)) =
       [1001, 1002]
   \<and> map extra
         (pending (scheduleApplicationNotifications exampleEnv exampleApplications exampleState)) =
       [ApplicationExtra ''1705000000001'' 95, ApplicationExtra ''1705000000003'' 88]
   \<and> map schedule_at
         (pending (scheduleApplicationNotifications exampleEnv exampleApplications exampleState)) =
       [now exampleEnv + 60000, now exampleEnv + 4 * msPerDay]
   \<and> map applicationId
         (loadApplicationSchedule
            (scheduleApplicationNotifications exampleEnv exampleApplications exampleState)) =
       [''1705000000001'', ''1705000000003'']
   \<and> map notificationId
         (loadApplicationSchedule
            (scheduleApplicationNotifications exampleEnv exampleApplications exampleState)) =
       [1001, 1002]"
proof -
  let ?after = "scheduleApplicationNotifications exampleEnv exampleApplications exampleState"
  let ?due = "[exampleApplications ! 0, exampleApplications ! 2]"
  let ?batch = "applicationBatch exampleEnv (notificationCounter exampleState) ?due"
  have old: "LocalNotifications_cancel (map notificationId (loadApplicationSchedule exampleState))
      (pending exampleState) = []"
    by code_simp
  have before: "map notification_id (pending exampleState) = [1000]"
    by code_simp
  have c: "notificationCounter exampleState = 1001"
    by (simp add: exampleState_def)
  have ids: "map application_id ?due = [''1705000000001'', ''1705000000003'']"
    by (simp add: exampleApplications_def exampleApplication_def)
  note T = scheduleApplicationNotifications_replaces [OF example_env(1,3,2,4),
      where app = "exampleApplications ! 0" and applications = exampleApplications
        and st = exampleState,
      unfolded Let_def example_due old]
  from T have "pending ?after = LocalNotifications_schedule ?batch []"
    by blast
  then have p: "pending ?after = ?batch"
    by (simp add: LocalNotifications_schedule_def)
  from T have "map notification_id ?batch =
      [notificationCounter exampleState ..< notificationCounter exampleState + length ?due]"
    by blast
  then have n: "map notification_id ?batch = [1001, 1002]"
    by (simp add: c upt_rec)
  from T have "map extra ?batch =
      map (\<lambda>app. ApplicationExtra (application_id app) (pendingDays exampleEnv app)) ?due"
    by blast
  then have e: "map extra ?batch =
      [ApplicationExtra ''1705000000001'' 95, ApplicationExtra ''1705000000003'' 88]"
    using ids by (simp add: example_pending_days)
  from T have "map schedule_at ?batch =
      map (\<lambda>app. if 90 \<le> pendingDays exampleEnv app then now exampleEnv + 60000
                  else now exampleEnv + (90 + 2 - int (pendingDays exampleEnv app)) * msPerDay) ?due"
    by blast
  then have a: "map schedule_at ?batch = [now exampleEnv + 60000, now exampleEnv + 4 * msPerDay]"
    by (simp add: example_pending_days)
  from T have "map applicationId (loadApplicationSchedule ?after) = map application_id ?due"
    by blast
  then have s: "map applicationId (loadApplicationSchedule ?after) =
      [''1705000000001'', ''1705000000003'']"
    by (simp only: ids)
  from T have "map notificationId (loadApplicationSchedule ?after) = map notification_id ?batch"
    by blast
  then have i: "map notificationId (loadApplicationSchedule ?after) = [1001, 1002]"
    by (simp only: n)
  show ?thesis
    using example_env example_pending_days before n e a s i unfolding p
    by (intro conjI)
qed

end
